theory Spec2Isabelle
  imports Complex_Main
begin

section \<open>Python values\<close>

text \<open>
  The values that travel through work orders, keyword arguments and dataset rows:
  \<open>None\<close>, booleans, integers, floats (as reals), strings, lists and dictionaries with
  string keys. A dictionary keeps its insertion order, so it is an association list;
  a lookup takes the first binding of the key.
\<close>

datatype jval =
    PNone
  | PBool bool
  | PInt int
  | PFloat real
  | PStr string
  | PList "jval list"
  | PDict "(string \<times> jval) list"

datatype exn =
    TypeError
  | ValueError
  | AttributeError
  | IndexError
  | KeyError
  | ClientError string
  | Exception string

text \<open>Python's truth test \<open>if x:\<close> and \<open>not x\<close>.\<close>

fun truthy :: "jval \<Rightarrow> bool" where
  "truthy PNone = False"
| "truthy (PBool b) = b"
| "truthy (PInt i) = (i \<noteq> 0)"
| "truthy (PFloat r) = (r \<noteq> 0)"
| "truthy (PStr s) = (s \<noteq> [])"
| "truthy (PList xs) = (xs \<noteq> [])"
| "truthy (PDict kvs) = (kvs \<noteq> [])"

text \<open>\<open>d.get(k, default)\<close> on a dictionary.\<close>

type_synonym pydict = "(string \<times> jval) list"

definition dict_get :: "pydict \<Rightarrow> string \<Rightarrow> jval \<Rightarrow> jval" where
  "dict_get d k dflt = (case map_of d k of None \<Rightarrow> dflt | Some v \<Rightarrow> v)"

definition dict_has :: "pydict \<Rightarrow> string \<Rightarrow> bool" where
  "dict_has d k = (map_of d k \<noteq> None)"

text \<open>
  The builtin \<open>int(x)\<close>. On a string it drops the surrounding ASCII blanks and reads
  an optional sign and decimal digits, which single underscores may separate; anything
  else raises \<open>ValueError\<close>. Characters are bytes here, so digits and blanks outside
  ASCII are not read. On \<open>None\<close>, a list or a dictionary it raises \<open>TypeError\<close>; a
  float is truncated towards zero.
\<close>

definition digit_val :: "char \<Rightarrow> nat option" where
  "digit_val c =
     (let code = (of_char c :: nat)
      in if 48 \<le> code \<and> code \<le> 57 then Some (code - 48) else None)"

fun digits_val :: "nat \<Rightarrow> string \<Rightarrow> nat option" where
  "digits_val acc [] = Some acc"
| "digits_val acc (c # cs) =
     (if c = CHR ''_'' then
        (case cs of
           [] \<Rightarrow> None
         | d # ds \<Rightarrow> if digit_val d = None then None else digits_val acc cs)
      else case digit_val c of None \<Rightarrow> None | Some d \<Rightarrow> digits_val (10 * acc + d) cs)"

definition is_blank :: "char \<Rightarrow> bool" where
  "is_blank c =
     (c = CHR '' '' \<or> c = CHR 0x09 \<or> c = CHR 0x0A \<or> c = CHR 0x0B \<or> c = CHR 0x0C \<or>
      c = CHR 0x0D)"

definition strip :: "string \<Rightarrow> string" where
  "strip s = rev (dropWhile is_blank (rev (dropWhile is_blank s)))"

definition int_of_str :: "string \<Rightarrow> exn + int" where
  "int_of_str s =
     (case strip s of
        [] \<Rightarrow> Inl ValueError
      | c # cs \<Rightarrow>
          (let signed = (c = CHR ''-'' \<or> c = CHR ''+'');
               body = (if signed then cs else c # cs)
           in case body of
                [] \<Rightarrow> Inl ValueError
              | d # ds \<Rightarrow>
                  if digit_val d = None then Inl ValueError
                  else case digits_val 0 body of
                         None \<Rightarrow> Inl ValueError
                       | Some n \<Rightarrow> Inr (if c = CHR ''-'' then - int n else int n)))"

fun py_int :: "jval \<Rightarrow> exn + int" where
  "py_int PNone = Inl TypeError"
| "py_int (PBool b) = Inr (if b then 1 else 0)"
| "py_int (PInt i) = Inr i"
| "py_int (PFloat r) = Inr (if r < 0 then - \<lfloor>- r\<rfloor> else \<lfloor>r\<rfloor>)"
| "py_int (PStr s) = int_of_str s"
| "py_int (PList xs) = Inl TypeError"
| "py_int (PDict kvs) = Inl TypeError"

text \<open>\<open>s.split(':')\<close>: the pieces between the separators, at least one piece.\<close>

fun split_on :: "char \<Rightarrow> string \<Rightarrow> string list" where
  "split_on sep [] = [[]]"
| "split_on sep (c # cs) =
     (if c = sep then [] # split_on sep cs
      else (case split_on sep cs of
              [] \<Rightarrow> [[c]]
            | p # ps \<Rightarrow> (c # p) # ps))"

section \<open>Status codes and the result envelope\<close>

text \<open>
  Modelled from the spec: the status codes of \<open>analysis_engine.consts\<close>, which is not
  among the sources. The spec lists \<open>NOT_RUN\<close>, \<open>INVALID\<close>, \<open>SUCCESS\<close>, \<open>ERR\<close> and
  \<open>TRADE_FILLED\<close> as members of one integral enumeration and leaves the remaining
  members open; \<open>OTHER_STATUS\<close> stands for those.
\<close>

datatype status = NOT_RUN | INVALID | SUCCESS | ERR | TRADE_FILLED | OTHER_STATUS nat

text \<open>
  The record \<open>rec\<close> that \<open>publish_pricing_update\<close> fills in, and the messages it
  puts into \<open>err\<close>: the literal \<open>'missing ticker'\<close>, or the text
  \<open>'failed - publish_pricing_update dict={} with ex={}'\<close> formatted with the work
  order and the exception.
\<close>

record pricing_rec =
  rec_ticker :: jval
  rec_ticker_id :: jval
  rec_s3_enabled :: jval
  rec_redis_enabled :: jval
  rec_s3_bucket :: jval
  rec_s3_key :: jval
  rec_redis_key :: jval
  rec_updated :: jval

datatype err_msg =
    Err_text string
  | Err_failed_publish pydict exn

text \<open>
  Modelled from the spec: \<open>build_result.build_result\<close>, which is not among the
  sources. It shapes the triple of status, error and record and does nothing else;
  \<open>res_rec\<close> is \<open>None\<close> when the caller passes no record.
\<close>

record result =
  res_status :: status
  res_err :: "err_msg option"
  res_rec :: "pricing_rec option"

definition build_result :: "status \<Rightarrow> err_msg option \<Rightarrow> pricing_rec option \<Rightarrow> result" where
  "build_result st e r = \<lparr>res_status = st, res_err = e, res_rec = r\<rparr>"

section \<open>The pricing republish task\<close>

text \<open>
  The defaults that \<open>publish_pricing_update\<close> imports from
  \<open>analysis_engine.consts\<close>. The module is not among the sources, so the values
  are a parameter of the task.
\<close>

record env_consts =
  TICKER :: jval
  TICKER_ID :: jval
  ENABLED_S3_UPLOAD :: jval
  S3_ACCESS_KEY :: jval
  S3_SECRET_KEY :: jval
  S3_REGION_NAME :: jval
  S3_ADDRESS :: jval
  S3_SECURE :: jval
  ENABLED_REDIS_PUBLISH :: jval
  REDIS_ADDRESS :: jval
  REDIS_KEY :: jval
  REDIS_PASSWORD :: jval
  REDIS_DB :: jval
  REDIS_EXPIRE :: jval

text \<open>
  What the archive and the cache answer. Each call of a client library either returns or
  raises; \<open>bucket_listed\<close> is the outcome of the test
  \<open>s3.Bucket(name) not in s3.buckets.all()\<close>, with \<open>Inr True\<close> when the bucket is
  there.
\<close>

record world =
  s3_resource :: "exn option"
  bucket_listed :: "exn + bool"
  create_bucket :: "exn option"
  put_object :: "exn option"
  redis_connect :: "exn option"
  redis_set :: "exn option"

text \<open>
  The calls the task makes on the two sinks, in order, each with what it raised.
  \<open>S3_resource\<close> carries the transport-security flag and the address the endpoint
  URL is formatted from; the body of \<open>S3_put_object\<close> is \<open>json.dumps\<close> of the
  value it carries.
\<close>

datatype sink_call =
    S3_resource bool jval jval jval jval
  | S3_bucket_check jval
  | S3_create_bucket jval
  | S3_put_object jval jval jval
  | Redis_connect string string jval jval
  | Redis_set jval jval jval

type_synonym event = "sink_call \<times> exn option"

text \<open>The branch \<open>if enable_s3_upload:\<close>. Only \<open>boto3.resource\<close> sits outside the inner
  \<open>try\<close> blocks; its exception is the second component.\<close>

definition s3_upload ::
  "env_consts \<Rightarrow> world \<Rightarrow> pydict \<Rightarrow> jval \<Rightarrow> jval \<Rightarrow> jval \<Rightarrow> event list \<times> exn option" where
  "s3_upload c w work_dict s3_bucket_name s3_key data =
     (let access_key = dict_get work_dict ''s3_access_key'' (S3_ACCESS_KEY c);
          secret_key = dict_get work_dict ''s3_secret_key'' (S3_SECRET_KEY c);
          region_name = dict_get work_dict ''s3_region_name'' (S3_REGION_NAME c);
          service_address = dict_get work_dict ''s3_address'' (S3_ADDRESS c);
          secure = (dict_get work_dict ''s3_secure'' (S3_SECURE c) = PStr ''1'');
          connect = S3_resource secure service_address access_key secret_key region_name
      in case s3_resource w of
           Some e \<Rightarrow> ([(connect, Some e)], Some e)
         | None \<Rightarrow>
             (let ensure =
                    (case bucket_listed w of
                       Inl e \<Rightarrow> [(S3_bucket_check s3_bucket_name, Some e)]
                     | Inr True \<Rightarrow> [(S3_bucket_check s3_bucket_name, None)]
                     | Inr False \<Rightarrow>
                         [(S3_bucket_check s3_bucket_name, None),
                          (S3_create_bucket s3_bucket_name, create_bucket w)]);
                  upload = [(S3_put_object s3_bucket_name s3_key data, put_object w)]
              in ((connect, None) # ensure @ upload, None)))"

text \<open>The branch \<open>if enable_redis_publish:\<close>. Splitting the address is outside the
  inner \<open>try\<close>: an address that is no string, or has no colon, raises.\<close>

definition redis_publish ::
  "env_consts \<Rightarrow> world \<Rightarrow> pydict \<Rightarrow> jval \<Rightarrow> event list \<times> exn option" where
  "redis_publish c w work_dict data =
     (let redis_address = dict_get work_dict ''redis_address'' (REDIS_ADDRESS c);
          redis_key = dict_get work_dict ''redis_key'' (REDIS_KEY c);
          redis_password = dict_get work_dict ''redis_password'' (REDIS_PASSWORD c);
          redis_db0 = dict_get work_dict ''redis_db'' PNone;
          redis_db = (if \<not> truthy redis_db0 then REDIS_DB c else redis_db0);
          redis_expire =
            (if dict_has work_dict ''redis_expire''
             then dict_get work_dict ''redis_expire'' (REDIS_EXPIRE c) else PNone)
      in case redis_address of
           PStr a \<Rightarrow>
             (case split_on CHR '':'' a of
                redis_host # redis_port # _ \<Rightarrow>
                  (let connect = Redis_connect redis_host redis_port redis_password redis_db
                   in case redis_connect w of
                        Some e \<Rightarrow> ([(connect, Some e)], None)
                      | None \<Rightarrow>
                          ([(connect, None),
                            (Redis_set redis_key data redis_expire, redis_set w)], None))
              | _ \<Rightarrow> ([], Some IndexError))
         | _ \<Rightarrow> ([], Some AttributeError))"

definition initial_rec :: pricing_rec where
  "initial_rec =
     \<lparr>rec_ticker = PNone, rec_ticker_id = PNone, rec_s3_enabled = PBool False,
      rec_redis_enabled = PBool False, rec_s3_bucket = PNone, rec_s3_key = PNone,
      rec_redis_key = PNone, rec_updated = PNone\<rparr>"

text \<open>The body of the outer \<open>try\<close>: the calls made on the sinks, and either the
  exception that leaves the body or the envelope it builds.\<close>

definition publish_pricing_body ::
  "env_consts \<Rightarrow> world \<Rightarrow> pydict \<Rightarrow> event list \<times> (exn + result)" where
  "publish_pricing_body c w work_dict =
     (let ticker = dict_get work_dict ''ticker'' (TICKER c)
      in case py_int (dict_get work_dict ''ticker_id'' (TICKER_ID c)) of
           Inl e \<Rightarrow> ([], Inl e)
         | Inr ticker_id \<Rightarrow>
             if \<not> truthy ticker then
               ([], Inr (build_result ERR (Some (Err_text ''missing ticker'')) (Some initial_rec)))
             else
               (let s3_key = dict_get work_dict ''s3_key'' PNone;
                    s3_bucket_name = dict_get work_dict ''s3_bucket'' (PStr ''pricing'');
                    redis_key = dict_get work_dict ''redis_key'' PNone;
                    data = dict_get work_dict ''data'' PNone;
                    updated = dict_get work_dict ''updated'' PNone;
                    enable_s3_upload = dict_get work_dict ''s3_enabled'' (ENABLED_S3_UPLOAD c);
                    enable_redis_publish =
                      dict_get work_dict ''redis_enabled'' (ENABLED_REDIS_PUBLISH c);
                    rec = \<lparr>rec_ticker = ticker, rec_ticker_id = PInt ticker_id,
                           rec_s3_enabled = enable_s3_upload,
                           rec_redis_enabled = enable_redis_publish,
                           rec_s3_bucket = s3_bucket_name, rec_s3_key = s3_key,
                           rec_redis_key = redis_key, rec_updated = updated\<rparr>;
                    s3 = (if truthy enable_s3_upload
                          then s3_upload c w work_dict s3_bucket_name s3_key data
                          else ([], None))
                in case snd s3 of
                     Some e \<Rightarrow> (fst s3, Inl e)
                   | None \<Rightarrow>
                       (let rd = (if truthy enable_redis_publish
                                  then redis_publish c w work_dict data
                                  else ([], None))
                        in case snd rd of
                             Some e \<Rightarrow> (fst s3 @ fst rd, Inl e)
                           | None \<Rightarrow>
                               (fst s3 @ fst rd, Inr (build_result SUCCESS None (Some rec))))))"

text \<open>The task: the outer \<open>except\<close> turns an exception into an \<open>ERR\<close> envelope built
  without a record.\<close>

definition publish_pricing_update ::
  "env_consts \<Rightarrow> world \<Rightarrow> pydict \<Rightarrow> event list \<times> result" where
  "publish_pricing_update c w work_dict =
     (case publish_pricing_body c w work_dict of
        (evs, Inl e) \<Rightarrow> (evs, build_result ERR (Some (Err_failed_publish work_dict e)) None)
      | (evs, Inr res) \<Rightarrow> (evs, res))"

section \<open>Datasets\<close>

text \<open>
  A tabular dataset (a pandas \<open>DataFrame\<close>) is its column names and its rows. A cell
  is a float, an integer, or an object that neither \<open>float()\<close> nor \<open>int()\<close>
  accepts. \<open>pd.DataFrame([{}])\<close> has one row and no column, \<open>pd.DataFrame([])\<close> has
  neither.
\<close>

datatype cell = CFloat real | CInt int | CObj

datatype frame = DataFrame (columns: "string list") (rows: "(string \<times> cell) list list")

text \<open>A value of a dataset node's \<open>data\<close> map: a table, or any other value.\<close>

datatype dsval = Frame frame | Plain jval

text \<open>\<open>hasattr(v, 'empty')\<close>: tables have the attribute, the plain values
  (dictionaries among them) do not.\<close>

fun has_empty :: "dsval \<Rightarrow> bool" where
  "has_empty (Frame f) = True"
| "has_empty (Plain v) = False"

text \<open>A dataset node is a dictionary with the keys \<open>id\<close>, \<open>date\<close> and \<open>data\<close>,
  each of which may be missing; \<open>data\<close> is itself a dictionary.\<close>

record node =
  node_id :: "jval option"
  node_date :: "jval option"
  node_data :: "(string \<times> dsval) list option"

type_synonym dataset = "(string \<times> node list) list"

text \<open>The member \<open>ds_data\<close>: \<open>None\<close> before the first node, then the node's
  \<open>data\<close> map, or the string \<open>'missing-DATA'\<close>.\<close>

datatype ds_data_val = No_data | Missing_data | Data "(string \<times> dsval) list"

text \<open>\<open>float(c)\<close> and \<open>int(c)\<close> on a cell, and \<open>df.iloc[-1][col]\<close>.\<close>

fun cell_float :: "cell \<Rightarrow> exn + real" where
  "cell_float (CFloat r) = Inr r"
| "cell_float (CInt i) = Inr (of_int i)"
| "cell_float CObj = Inl TypeError"

fun cell_int :: "cell \<Rightarrow> exn + int" where
  "cell_int (CFloat r) = Inr (if r < 0 then - \<lfloor>- r\<rfloor> else \<lfloor>r\<rfloor>)"
| "cell_int (CInt i) = Inr i"
| "cell_int CObj = Inl TypeError"

definition last_cell :: "frame \<Rightarrow> string \<Rightarrow> exn + cell" where
  "last_cell f col =
     (if rows f = [] then Inl IndexError
      else case map_of (last (rows f)) col of
             None \<Rightarrow> Inl KeyError
           | Some c \<Rightarrow> Inr c)"

section \<open>Formatted text\<close>

text \<open>
  A string built with \<open>str.format\<close> is kept as its pieces: the literal text, the
  values rendered into it, the text of an exception, and \<open>json.dumps\<close> of a value.
\<close>

datatype piece = Lit string | Arg jval | Exc exn | Json jval

type_synonym ftext = "piece list"

text \<open>Decimal digits of a natural number, for the progress label.\<close>

definition digit_char :: "nat \<Rightarrow> char" where
  "digit_char d = char_of (of_char CHR ''0'' + d)"

function show_nat :: "nat \<Rightarrow> string" where
  "show_nat n = (if n < 10 then [digit_char n] else show_nat (n div 10) @ [digit_char (n mod 10)])"
  by pat_completeness auto
termination
  by (relation "measure id") auto

section \<open>Orders and positions\<close>

text \<open>
  An order record as the buy and sell builders return it; \<open>ord_price\<close> is the
  entry \<open>buy_price\<close> of a buy and \<open>sell_price\<close> of a sell. A position is the
  dictionary with the keys \<open>shares\<close>, \<open>buys\<close> and \<open>sells\<close> that the engine keeps
  for a ticker.
\<close>

datatype row = Row_dict pydict | Row_series pydict

datatype details = Details_row pydict | Details_json_tuple pydict string string

record order_request =
  req_ticker :: string
  req_close :: jval
  req_num_owned :: int
  req_shares :: "int option"
  req_balance :: real
  req_commission :: real
  req_date :: jval
  req_use_key :: ftext
  req_details :: details
  req_reason :: "string option"

record order =
  ord_status :: status
  ord_ticker :: string
  ord_shares :: int
  ord_price :: real
  ord_balance :: real
  ord_date :: jval
  ord_details :: details
  ord_reason :: "string option"

record position =
  pos_shares :: int
  pos_buys :: "order list"
  pos_sells :: "order list"

text \<open>Assignment \<open>d[k] = v\<close> on an insertion-ordered dictionary.\<close>

fun dict_set :: "('k \<times> 'v) list \<Rightarrow> 'k \<Rightarrow> 'v \<Rightarrow> ('k \<times> 'v) list" where
  "dict_set [] k v = [(k, v)]"
| "dict_set (p # ps) k v = (if fst p = k then (k, v) # ps else p # dict_set ps k v)"

definition row_items :: "row \<Rightarrow> pydict" where
  "row_items r = (case r of Row_dict d \<Rightarrow> d | Row_series d \<Rightarrow> d)"

text \<open>\<open>row[k]\<close> raises \<open>KeyError\<close> on a missing key.\<close>

definition row_get :: "row \<Rightarrow> string \<Rightarrow> exn + jval" where
  "row_get r k = (case map_of (row_items r) k of None \<Rightarrow> Inl KeyError | Some v \<Rightarrow> Inr v)"


section \<open>The algorithm engine\<close>

text \<open>
  The arguments of one call of \<open>publish.publish\<close>, and the per-surface members
  (\<open>report_output_file\<close>, \<open>report_redis_key\<close>, ...) the engine resolves them from.
  The output file is a value the caller or the configuration gave, or the path the
  engine derives with \<open>'{}/report-{}.json'.format(output_dir, output_file_prefix)\<close>
  (\<open>history-\<close> for the trade history).
\<close>

datatype file_arg = File_given jval | File_derived ftext

fun file_truthy :: "file_arg \<Rightarrow> bool" where
  "file_truthy (File_given v) = truthy v"
| "file_truthy (File_derived t) = True"

record publish_call =
  pub_data :: string
  pub_label :: jval
  pub_convert_to_json :: jval
  pub_output_file :: file_arg
  pub_compress :: jval
  pub_redis_enabled :: jval
  pub_redis_key :: jval
  pub_redis_address :: jval
  pub_redis_db :: jval
  pub_redis_password :: jval
  pub_redis_expire :: jval
  pub_redis_serializer :: jval
  pub_redis_encoding :: jval
  pub_s3_enabled :: jval
  pub_s3_key :: jval
  pub_s3_address :: jval
  pub_s3_bucket :: jval
  pub_s3_access_key :: jval
  pub_s3_secret_key :: jval
  pub_s3_region_name :: jval
  pub_s3_secure :: jval
  pub_slack_enabled :: jval
  pub_slack_code_block :: jval
  pub_slack_full_width :: jval
  pub_verbose :: jval

text \<open>The members of \<open>BaseAlgo\<close> that the methods below read or write.\<close>

record algo =
  buys :: "order list"
  sells :: "order list"
  tickers :: "string list option"
  ticker :: "string option"
  balance :: real
  starting_balance :: real
  starting_close :: real
  commission :: real
  name :: string
  num_owned :: "int option"
  num_buys :: "order list option"
  num_sells :: "order list option"
  trade_price :: real
  latest_close :: real
  latest_high :: real
  latest_open :: real
  latest_low :: real
  latest_volume :: real
  ask :: real
  bid :: real
  prev_bal :: "real option"
  prev_num_owned :: "int option"
  ds_id :: jval
  trade_date :: jval
  trade_type :: jval
  buy_hold_units :: jval
  sell_hold_units :: jval
  spread_exp_date :: jval
  order_history :: "jval list"
  positions :: "(string \<times> position) list"
  created_buy :: bool
  should_buy :: bool
  buy_strength :: jval
  buy_risk :: jval
  created_sell :: bool
  should_sell :: bool
  sell_strength :: jval
  sell_risk :: jval
  stop_loss :: jval
  trailing_stop_loss :: jval
  last_handle_data :: "dataset option"
  last_history_dict :: jval
  last_ds_id :: jval
  last_ds_date :: jval
  last_ds_data :: ds_data_val
  ds_date :: jval
  ds_data :: ds_data_val
  df_daily :: dsval
  df_minute :: dsval
  df_stats :: dsval
  df_peers :: dsval
  df_financials :: dsval
  df_earnings :: dsval
  df_dividends :: dsval
  df_quote :: dsval
  df_company :: dsval
  df_iex_news :: dsval
  df_yahoo_news :: dsval
  df_options :: dsval
  empty_pd :: dsval
  df_pricing :: dsval
  note_text :: jval
  debug_msg :: ftext
  version :: jval
  publish_history :: bool
  publish_report :: bool
  raise_on_err :: bool
  output_file_dir :: jval
  output_file_prefix :: jval
  history_output_file :: jval
  history_convert_to_json :: jval
  history_compress :: jval
  history_redis_enabled :: jval
  history_redis_address :: jval
  history_redis_db :: jval
  history_redis_password :: jval
  history_redis_expire :: jval
  history_redis_serializer :: jval
  history_redis_encoding :: jval
  history_s3_enabled :: jval
  history_s3_address :: jval
  history_s3_bucket :: jval
  history_s3_access_key :: jval
  history_s3_secret_key :: jval
  history_s3_region_name :: jval
  history_s3_secure :: jval
  history_slack_enabled :: jval
  history_slack_code_block :: jval
  history_slack_full_width :: jval
  history_redis_key :: jval
  history_s3_key :: jval
  history_verbose :: jval
  report_output_file :: jval
  report_convert_to_json :: jval
  report_compress :: jval
  report_redis_enabled :: jval
  report_redis_address :: jval
  report_redis_db :: jval
  report_redis_password :: jval
  report_redis_expire :: jval
  report_redis_serializer :: jval
  report_redis_encoding :: jval
  report_s3_enabled :: jval
  report_s3_address :: jval
  report_s3_bucket :: jval
  report_s3_access_key :: jval
  report_s3_secret_key :: jval
  report_s3_region_name :: jval
  report_s3_secure :: jval
  report_slack_enabled :: jval
  report_slack_code_block :: jval
  report_slack_full_width :: jval
  report_redis_key :: jval
  report_s3_key :: jval
  report_verbose :: jval
  load_from_s3 :: "string option"
  load_from_redis :: "string option"
  load_from_file :: "string option"
  load_is_compress :: bool
  loaded_dataset :: "dataset option"


text \<open>
  The helpers the engine imports from modules that are not among the sources: the two
  order builders, the trade history builder, the percent label of
  \<open>analysis_engine.consts\<close>, \<open>os.path.exists\<close> and the dataset file loader. They
  are parameters of the engine; each may raise where the source calls it unguarded.
\<close>

record history_args =
  h_ticker :: string
  h_algo_start_price :: real
  h_original_balance :: real
  h_num_owned :: "int option"
  h_close :: real
  h_balance :: real
  h_commission :: real
  h_date :: jval
  h_trade_type :: jval
  h_high :: real
  h_low :: real
  h_open_val :: real
  h_volume :: real
  h_ask :: real
  h_bid :: real
  h_stop_loss :: jval
  h_trailing_stop_loss :: jval
  h_buy_hold_units :: jval
  h_sell_hold_units :: jval
  h_spread_exp_date :: jval
  h_prev_balance :: "real option"
  h_prev_num_owned :: "int option"
  h_total_buys :: "order list option"
  h_total_sells :: "order list option"
  h_buy_triggered :: bool
  h_buy_strength :: jval
  h_buy_risk :: jval
  h_sell_triggered :: bool
  h_sell_strength :: jval
  h_sell_risk :: jval
  h_note :: jval
  h_ds_id :: jval
  h_version :: jval

record deps =
  build_buy_order :: "order_request \<Rightarrow> exn + order"
  build_sell_order :: "order_request \<Rightarrow> exn + order"
  build_trade_history_entry :: "history_args \<Rightarrow> exn + jval"
  get_percent_done :: "nat \<Rightarrow> nat \<Rightarrow> string"
  path_exists :: "string \<Rightarrow> bool"
  load_algo_dataset_from_file :: "string \<Rightarrow> bool \<Rightarrow> exn + dataset option"

subsection \<open>Positions\<close>

definition get_ticker_positions ::
  "algo \<Rightarrow> string \<Rightarrow> int option \<times> order list option \<times> order list option" where
  "get_ticker_positions s tkr =
     (case map_of (positions s) tkr of
        None \<Rightarrow> (None, None, None)
      | Some p \<Rightarrow> (Some (pos_shares p), Some (pos_buys p), Some (pos_sells p)))"

definition get_owned_shares :: "algo \<Rightarrow> string \<Rightarrow> int" where
  "get_owned_shares s tkr =
     (case map_of (positions s) tkr of None \<Rightarrow> 0 | Some p \<Rightarrow> pos_shares p)"

text \<open>The assignment
  \<open>(self.num_owned, self.num_buys, self.num_sells) = self.get_ticker_positions(ticker)\<close>.\<close>

definition assign_ticker_positions :: "algo \<Rightarrow> string \<Rightarrow> algo" where
  "assign_ticker_positions s tkr =
     (case get_ticker_positions s tkr of
        (owned, bs, ss) \<Rightarrow> s\<lparr>num_owned := owned, num_buys := bs, num_sells := ss\<rparr>)"

subsection \<open>Orders\<close>

definition order_details_of :: "row \<Rightarrow> string \<Rightarrow> string \<Rightarrow> details" where
  "order_details_of r orient date_format =
     (case r of
        Row_dict d \<Rightarrow> Details_row d
      | Row_series d \<Rightarrow> Details_json_tuple d orient date_format)"

definition create_buy_order ::
  "deps \<Rightarrow> algo \<Rightarrow> string \<Rightarrow> row \<Rightarrow> int option \<Rightarrow> string option \<Rightarrow> algo \<times> exn option" where
  "create_buy_order dp s tkr r shares_arg reason =
     (case row_get r ''close'' of
        Inl e \<Rightarrow> (s, Some e)
      | Inr close \<Rightarrow>
     (case row_get r ''date'' of
        Inl e \<Rightarrow> (s, Some e)
      | Inr dataset_date \<Rightarrow>
     (let order_details = order_details_of r ''records'' ''iso'';
          owned = get_owned_shares s tkr;
          tried =
            (case build_buy_order dp
                    \<lparr>req_ticker = tkr, req_close = close, req_num_owned = owned,
                     req_shares = shares_arg, req_balance = balance s,
                     req_commission = commission s, req_date = dataset_date,
                     req_use_key = [Arg (PStr tkr), Lit ''_'', Arg dataset_date],
                     req_details = order_details, req_reason = reason\<rparr> of
               Inl e \<Rightarrow>
                 (s\<lparr>debug_msg := [Arg (PStr (name s)), Lit '' - buy '', Arg (PStr tkr),
                                   Lit ''@'', Arg close, Lit '' - FAILED with ex='', Exc e]\<rparr>,
                  if raise_on_err s then Some e else None)
             | Inr new_buy \<Rightarrow>
                 (let s1 =
                        (if ord_status new_buy = TRADE_FILLED then
                           (case map_of (positions s) tkr of
                              Some p \<Rightarrow>
                                (assign_ticker_positions
                                   (s\<lparr>positions :=
                                        dict_set (positions s) tkr
                                          (p\<lparr>pos_shares := pos_shares p + ord_shares new_buy,
                                             pos_buys := pos_buys p @ [new_buy]\<rparr>)\<rparr>) tkr)
                                \<lparr>created_buy := True\<rparr>
                            | None \<Rightarrow>
                                s\<lparr>positions :=
                                     dict_set (positions s) tkr
                                       \<lparr>pos_shares = ord_shares new_buy, pos_buys = [new_buy],
                                        pos_sells = []\<rparr>\<rparr>)
                           \<lparr>balance := ord_balance new_buy\<rparr>
                         else s)
                  in (s1\<lparr>buys := buys s1 @ [new_buy]\<rparr>, None)))
      in case snd tried of
           Some e \<Rightarrow> (fst tried, Some e)
         | None \<Rightarrow> (assign_ticker_positions (fst tried) tkr, None))))"

definition create_sell_order ::
  "deps \<Rightarrow> algo \<Rightarrow> string \<Rightarrow> row \<Rightarrow> int option \<Rightarrow> string option \<Rightarrow> string \<Rightarrow> string \<Rightarrow>
     algo \<times> exn option" where
  "create_sell_order dp s tkr r shares_arg reason orient date_format =
     (case row_get r ''close'' of
        Inl e \<Rightarrow> (s, Some e)
      | Inr close \<Rightarrow>
     (case row_get r ''date'' of
        Inl e \<Rightarrow> (s, Some e)
      | Inr dataset_date \<Rightarrow>
     (let order_details = order_details_of r orient date_format;
          owned = get_owned_shares s tkr;
          tried =
            (case build_sell_order dp
                    \<lparr>req_ticker = tkr, req_close = close, req_num_owned = owned,
                     req_shares = shares_arg, req_balance = balance s,
                     req_commission = commission s, req_date = dataset_date,
                     req_use_key = [Arg (PStr tkr), Lit ''_'', Arg dataset_date],
                     req_details = order_details, req_reason = reason\<rparr> of
               Inl e \<Rightarrow>
                 (s\<lparr>debug_msg := [Arg (PStr (name s)), Lit '' - sell '', Arg (PStr tkr),
                                   Lit ''@'', Arg close, Lit '' - FAILED with ex='', Exc e]\<rparr>,
                  if raise_on_err s then Some e else None)
             | Inr new_sell \<Rightarrow>
                 (let s1 =
                        (if ord_status new_sell = TRADE_FILLED then
                           (case map_of (positions s) tkr of
                              Some p \<Rightarrow>
                                (assign_ticker_positions
                                   (s\<lparr>positions :=
                                        dict_set (positions s) tkr
                                          (p\<lparr>pos_shares := pos_shares p + ord_shares new_sell,
                                             pos_sells := pos_sells p @ [new_sell]\<rparr>)\<rparr>) tkr)
                                \<lparr>created_sell := True\<rparr>
                            | None \<Rightarrow>
                                s\<lparr>positions :=
                                     dict_set (positions s) tkr
                                       \<lparr>pos_shares = ord_shares new_sell, pos_buys = [],
                                        pos_sells = [new_sell]\<rparr>\<rparr>)
                           \<lparr>balance := ord_balance new_sell\<rparr>
                         else s)
                  in (s1\<lparr>sells := sells s1 @ [new_sell]\<rparr>, None)))
      in case snd tried of
           Some e \<Rightarrow> (fst tried, Some e)
         | None \<Rightarrow> (assign_ticker_positions (fst tried) tkr, None))))"


subsection \<open>Loading a dataset node\<close>

definition get_supported_tickers_in_data :: "algo \<Rightarrow> dataset \<Rightarrow> exn + string list" where
  "get_supported_tickers_in_data s data =
     (case tickers s of
        None \<Rightarrow> Inl TypeError
      | Some ts \<Rightarrow> Inr (filter (\<lambda>t. map_of data t \<noteq> None) ts))"

text \<open>\<open>data.get(k, default)\<close> on the \<open>data\<close> map of a node.\<close>

definition data_get :: "(string \<times> dsval) list \<Rightarrow> string \<Rightarrow> dsval \<Rightarrow> dsval" where
  "data_get d k dflt = (case map_of d k of None \<Rightarrow> dflt | Some v \<Rightarrow> v)"

text \<open>Statements in sequence: the next one runs when the one before raised nothing.\<close>

definition and_then ::
  "algo \<times> exn option \<Rightarrow> (algo \<Rightarrow> algo \<times> exn option) \<Rightarrow> algo \<times> exn option" where
  "and_then r f = (case snd r of Some e \<Rightarrow> r | None \<Rightarrow> f (fst r))"

definition float_at :: "frame \<Rightarrow> string \<Rightarrow> exn + real" where
  "float_at f col = (case last_cell f col of Inl e \<Rightarrow> Inl e | Inr c \<Rightarrow> cell_float c)"

definition int_at :: "frame \<Rightarrow> string \<Rightarrow> exn + int" where
  "int_at f col = (case last_cell f col of Inl e \<Rightarrow> Inl e | Inr c \<Rightarrow> cell_int c)"

text \<open>The statements inside the \<open>try\<close> of \<open>load_from_dataset\<close>, one column at a
  time; a conversion that raises leaves the members assigned before it.\<close>

definition set_latest_high :: "frame \<Rightarrow> algo \<Rightarrow> algo \<times> exn option" where
  "set_latest_high f s =
     (if ''high'' \<in> set (columns f) then
        (case float_at f ''high'' of
           Inl e \<Rightarrow> (s, Some e)
         | Inr v \<Rightarrow> (s\<lparr>latest_high := v\<rparr>, None))
      else (s, None))"

definition set_latest_low :: "frame \<Rightarrow> algo \<Rightarrow> algo \<times> exn option" where
  "set_latest_low f s =
     (if ''low'' \<in> set (columns f) then
        (case float_at f ''low'' of
           Inl e \<Rightarrow> (s, Some e)
         | Inr v \<Rightarrow> (s\<lparr>latest_low := v\<rparr>, None))
      else (s, None))"

definition set_latest_open :: "frame \<Rightarrow> algo \<Rightarrow> algo \<times> exn option" where
  "set_latest_open f s =
     (if ''open'' \<in> set (columns f) then
        (case float_at f ''open'' of
           Inl e \<Rightarrow> (s, Some e)
         | Inr v \<Rightarrow> (s\<lparr>latest_open := v\<rparr>, None))
      else (s, None))"

definition set_latest_close :: "frame \<Rightarrow> algo \<Rightarrow> algo \<times> exn option" where
  "set_latest_close f s =
     (if ''close'' \<in> set (columns f) then
        (case float_at f ''close'' of
           Inl e \<Rightarrow> (s, Some e)
         | Inr v \<Rightarrow>
             (let s1 = s\<lparr>latest_close := v, trade_price := v\<rparr>
              in (if starting_close s1 = 0 then s1\<lparr>starting_close := latest_close s1\<rparr>
                  else s1, None)))
      else (s, None))"

definition set_latest_volume :: "frame \<Rightarrow> algo \<Rightarrow> algo \<times> exn option" where
  "set_latest_volume f s =
     (if ''volume'' \<in> set (columns f) then
        (case int_at f ''volume'' of
           Inl e \<Rightarrow> (s, Some e)
         | Inr v \<Rightarrow> (s\<lparr>latest_volume := of_int v\<rparr>, None))
      else (s, None))"

definition latest_prices :: "algo \<Rightarrow> algo \<times> exn option" where
  "latest_prices s =
     (case df_daily s of
        Plain v \<Rightarrow> (s, None)
      | Frame f \<Rightarrow>
          and_then (and_then (and_then (and_then (set_latest_high f s)
            (set_latest_low f)) (set_latest_open f)) (set_latest_close f))
            (set_latest_volume f))"

text \<open>The check \<open>if not hasattr(self.df_x, 'empty'): self.df_x = self.empty_pd\<close>.\<close>

definition or_empty_pd :: "algo \<Rightarrow> dsval \<Rightarrow> dsval" where
  "or_empty_pd s v = (if \<not> has_empty v then empty_pd s else v)"

definition load_from_dataset :: "algo \<Rightarrow> node \<Rightarrow> algo \<times> exn option" where
  "load_from_dataset s nd =
     (let s1 = s\<lparr>last_ds_id := ds_id s, last_ds_date := ds_date s, last_ds_data := ds_data s\<rparr>;
          s2 = s1\<lparr>ds_id := (case node_id nd of None \<Rightarrow> PStr ''missing-ID'' | Some v \<Rightarrow> v),
                  ds_date := (case node_date nd of None \<Rightarrow> PStr ''missing-DATE'' | Some v \<Rightarrow> v),
                  ds_data := (case node_data nd of None \<Rightarrow> Missing_data | Some d \<Rightarrow> Data d)\<rparr>
      in case node_data nd of
           None \<Rightarrow> (s2, Some AttributeError)
         | Some d \<Rightarrow>
             (let s3 = s2\<lparr>df_daily := data_get d ''daily'' (empty_pd s2),
                          df_minute := data_get d ''minute'' (empty_pd s2),
                          df_stats := data_get d ''stats'' (empty_pd s2),
                          df_peers := data_get d ''peers'' (empty_pd s2),
                          df_financials := data_get d ''financials'' (empty_pd s2),
                          df_earnings := data_get d ''earnings'' (empty_pd s2),
                          df_dividends := data_get d ''dividends'' (empty_pd s2),
                          df_quote := data_get d ''quote'' (empty_pd s2),
                          df_company := data_get d ''company'' (empty_pd s2),
                          df_iex_news := data_get d ''news1'' (empty_pd s2),
                          df_yahoo_news := data_get d ''news'' (empty_pd s2),
                          df_options := data_get d ''options'' (empty_pd s2),
                          df_pricing := data_get d ''pricing'' (Plain (PDict []))\<rparr>;
                  s4 = s3\<lparr>df_daily := or_empty_pd s3 (df_daily s3),
                          df_minute := or_empty_pd s3 (df_minute s3),
                          df_stats := or_empty_pd s3 (df_stats s3),
                          df_peers := or_empty_pd s3 (df_peers s3),
                          df_financials := or_empty_pd s3 (df_financials s3),
                          df_earnings := or_empty_pd s3 (df_earnings s3),
                          df_dividends := or_empty_pd s3 (df_dividends s3),
                          df_quote := or_empty_pd s3 (df_quote s3),
                          df_company := or_empty_pd s3 (df_company s3),
                          df_iex_news := or_empty_pd s3 (df_iex_news s3),
                          df_yahoo_news := or_empty_pd s3 (df_yahoo_news s3),
                          df_options := or_empty_pd s3 (df_options s3),
                          df_pricing := or_empty_pd s3 (df_pricing s3)\<rparr>;
                  s5 = s4\<lparr>trade_date := ds_date s4, created_buy := False,
                          created_sell := False, should_buy := False, should_sell := False\<rparr>
              in case latest_prices s5 of
                   (s6, None) \<Rightarrow> (s6, None)
                 | (s6, Some e) \<Rightarrow>
                     (s6\<lparr>debug_msg :=
                           [Arg (PStr (name s6)), Lit '' handle - FAILED getting latest prices '',
                            Lit ''for algo='', Arg (ds_id s6), Lit '' - ds='', Arg (ds_date s6),
                            Lit '' ex='', Exc e]\<rparr>,
                      if raise_on_err s6 then Some e else None)))"

subsection \<open>The strategy hook and the trade history\<close>

text \<open>\<open>if self.num_owned\<close>: \<open>None\<close> and zero are false.\<close>

definition owned_truthy :: "int option \<Rightarrow> bool" where
  "owned_truthy n = (case n of None \<Rightarrow> False | Some k \<Rightarrow> k \<noteq> 0)"

text \<open>The default \<open>process\<close>. Its first log line reads \<open>self.ticker\<close>, which exists
  once \<open>handle_data\<close> has assigned it, and its second takes
  \<open>len(self.df_daily.index)\<close>.\<close>

definition example_row :: "string \<Rightarrow> row" where
  "example_row algo_id =
     Row_dict [(''name'', PStr algo_id), (''close'', PFloat 270), (''date'', PStr ''2018-11-02'')]"

definition process :: "deps \<Rightarrow> algo \<Rightarrow> string \<Rightarrow> string \<Rightarrow> node \<Rightarrow> algo \<times> exn option" where
  "process dp s algo_id tkr dataset_node =
     (case ticker s of
        None \<Rightarrow> (s, Some AttributeError)
      | Some t \<Rightarrow>
          (let s1 = s\<lparr>should_sell := False, should_buy := False\<rparr>
           in case df_daily s1 of
                Plain (PStr x) \<Rightarrow> (s1, Some TypeError)
              | Plain (PList x) \<Rightarrow> (s1, Some TypeError)
              | Plain v \<Rightarrow> (s1, Some AttributeError)
              | Frame f \<Rightarrow>
                  and_then (and_then
                    (if owned_truthy (num_owned s1) \<and> should_sell s1
                     then create_sell_order dp s1 tkr (example_row algo_id) None
                            (Some ''testing'') ''records'' ''iso''
                     else (s1, None))
                    (\<lambda>s2. if should_buy s2
                          then create_buy_order dp s2 tkr (example_row algo_id) None
                                 (Some ''testing'')
                          else (s2, None)))
                    (\<lambda>s3. if owned_truthy (num_owned s3) \<and> \<not> created_sell s3
                          then create_sell_order dp s3 tkr (example_row algo_id) None
                                 (Some ''testing'') ''records'' ''iso''
                          else (s3, None))))"

definition get_trade_history_node :: "deps \<Rightarrow> algo \<Rightarrow> exn + jval" where
  "get_trade_history_node dp s =
     (case ticker s of
        None \<Rightarrow> Inl AttributeError
      | Some t \<Rightarrow>
          build_trade_history_entry dp
            \<lparr>h_ticker = t, h_algo_start_price = starting_close s,
             h_original_balance = starting_balance s, h_num_owned = num_owned s,
             h_close = trade_price s, h_balance = balance s, h_commission = commission s,
             h_date = trade_date s, h_trade_type = trade_type s, h_high = latest_high s,
             h_low = latest_low s, h_open_val = latest_open s, h_volume = latest_volume s,
             h_ask = ask s, h_bid = bid s, h_stop_loss = stop_loss s,
             h_trailing_stop_loss = trailing_stop_loss s,
             h_buy_hold_units = buy_hold_units s, h_sell_hold_units = sell_hold_units s,
             h_spread_exp_date = spread_exp_date s, h_prev_balance = prev_bal s,
             h_prev_num_owned = prev_num_owned s, h_total_buys = num_buys s,
             h_total_sells = num_sells s, h_buy_triggered = should_buy s,
             h_buy_strength = buy_strength s, h_buy_risk = buy_risk s,
             h_sell_triggered = should_sell s, h_sell_strength = sell_strength s,
             h_sell_risk = sell_risk s, h_note = note_text s, h_ds_id = ds_id s,
             h_version = version s\<rparr>)"

definition build_progress_label :: "deps \<Rightarrow> nat \<Rightarrow> nat \<Rightarrow> string" where
  "build_progress_label dp progress total_count =
     get_percent_done dp progress total_count @ '' '' @ show_nat progress @ ''/'' @
     show_nat total_count"


subsection \<open>Replaying datasets\<close>

text \<open>\<open>if self.loaded_dataset\<close>: \<open>None\<close> and the empty map are false.\<close>

definition dataset_truthy :: "dataset option \<Rightarrow> bool" where
  "dataset_truthy d = (case d of None \<Rightarrow> False | Some m \<Rightarrow> m \<noteq> [])"

type_synonym strategy = "algo \<Rightarrow> string \<Rightarrow> string \<Rightarrow> node \<Rightarrow> algo \<times> exn option"

text \<open>The body of the inner loop of \<open>handle_data\<close> for one dataset node. The
  strategy hook \<open>process\<close> is a method a derived class overrides, so it is a
  parameter.\<close>

definition handle_node ::
  "deps \<Rightarrow> strategy \<Rightarrow> string \<Rightarrow> nat \<Rightarrow> nat \<Rightarrow> node \<Rightarrow> algo \<Rightarrow> algo \<times> exn option" where
  "handle_node dp proc tkr num_ticker_datasets cur_idx nd s =
     (case node_date nd of
        None \<Rightarrow> (s, Some KeyError)
      | Some d \<Rightarrow>
          (let track_label = build_progress_label dp cur_idx num_ticker_datasets;
               algo_id = ''ticker='' @ tkr @ '' '' @ track_label;
               shown_id = (case node_id nd of None \<Rightarrow> PStr ''missing-id'' | Some v \<Rightarrow> v);
               s1 = s\<lparr>ticker := Some tkr, prev_bal := Some (balance s),
                       prev_num_owned := num_owned s\<rparr>;
               s2 = assign_ticker_positions s1 tkr;
               s3 = s2\<lparr>debug_msg := [Arg (PStr tkr), Lit '' START - load dataset id='', Arg shown_id]\<rparr>
           in and_then (and_then (load_from_dataset s3 nd)
                (\<lambda>s4. proc
                        (s4\<lparr>debug_msg := [Arg (PStr tkr), Lit '' END - load dataset id='', Arg shown_id],
                            debug_msg := [Arg (PStr tkr), Lit '' START - process id='', Arg shown_id]\<rparr>)
                        algo_id tkr nd))
                (\<lambda>s5. let s6 = s5\<lparr>debug_msg := [Arg (PStr tkr), Lit '' END - process id='', Arg shown_id],
                                   debug_msg := [Arg (PStr tkr), Lit '' START - history id='', Arg shown_id]\<rparr>
                      in case get_trade_history_node dp s6 of
                           Inl e \<Rightarrow> (s6, Some e)
                         | Inr h \<Rightarrow>
                             (let s7 = s6\<lparr>last_history_dict := h\<rparr>;
                                  s8 = (if truthy h
                                        then s7\<lparr>order_history := order_history s7 @ [h]\<rparr>
                                        else s7)
                              in (s8\<lparr>debug_msg := [Arg (PStr tkr), Lit '' END - history id='',
                                                    Arg shown_id]\<rparr>, None)))))"

fun handle_nodes ::
  "deps \<Rightarrow> strategy \<Rightarrow> string \<Rightarrow> nat \<Rightarrow> nat \<Rightarrow> node list \<Rightarrow> algo \<Rightarrow> algo \<times> exn option" where
  "handle_nodes dp proc tkr n cur_idx [] s = (s, None)"
| "handle_nodes dp proc tkr n cur_idx (nd # nds) s =
     and_then (handle_node dp proc tkr n cur_idx nd s)
       (handle_nodes dp proc tkr n (Suc cur_idx) nds)"

fun handle_tickers ::
  "deps \<Rightarrow> strategy \<Rightarrow> dataset \<Rightarrow> string list \<Rightarrow> algo \<Rightarrow> algo \<times> exn option" where
  "handle_tickers dp proc data [] s = (s, None)"
| "handle_tickers dp proc data (tkr # tkrs) s =
     (case map_of data tkr of
        None \<Rightarrow> (s, Some KeyError)
      | Some nds \<Rightarrow>
          and_then (handle_nodes dp proc tkr (length nds) 1 nds s)
            (handle_tickers dp proc data tkrs))"

definition handle_data :: "deps \<Rightarrow> strategy \<Rightarrow> algo \<Rightarrow> dataset \<Rightarrow> algo \<times> exn option" where
  "handle_data dp proc s data_arg =
     (let s0 = s\<lparr>debug_msg := [Arg (PStr (name s)), Lit '' handle - start'']\<rparr>;
          data = (if dataset_truthy (loaded_dataset s0)
                  then (case loaded_dataset s0 of Some m \<Rightarrow> m | None \<Rightarrow> data_arg)
                  else data_arg)
      in case get_supported_tickers_in_data s0 data of
           Inl e \<Rightarrow> (s0, Some e)
         | Inr data_for_tickers \<Rightarrow>
             (let num_tickers = length data_for_tickers;
                  s1 = (if num_tickers > 0
                        then s0\<lparr>debug_msg := [Arg (PStr (name s0)), Lit '' handle - tickers='',
                                               Json (PList (map PStr data_for_tickers))]\<rparr>
                        else s0)
              in and_then (handle_tickers dp proc data data_for_tickers s1)
                   (\<lambda>s2. (s2\<lparr>last_handle_data := Some data,
                               debug_msg := [Arg (PStr (name s2)), Lit '' handle - end tickers='',
                                             Arg (PInt (int num_tickers))]\<rparr>, None))))"

text \<open>The members that neither the price extraction, nor an order, nor the default
  strategy assigns.\<close>

definition kept_members ::
  "algo \<Rightarrow> dataset option \<times> bool \<times> dsval \<times> jval list \<times> string option \<times> dsval \<times> jval \<times> jval" where
  "kept_members s =
     (loaded_dataset s, raise_on_err s, empty_pd s, order_history s, ticker s, df_daily s,
      ds_id s, trade_date s)"

text \<open>The trade history entries that can be recorded for a dataset node of a ticker:
  those the trade history builder returns when it is given that ticker, the node's id
  and the node's date (each with the default \<open>load_from_dataset\<close> puts in its
  place when the node lacks it).\<close>

definition entry_of :: "deps \<Rightarrow> string \<times> node \<Rightarrow> jval \<Rightarrow> bool" where
  "entry_of dp tn h =
     (\<exists>a. build_trade_history_entry dp a = Inr h \<and> h_ticker a = fst tn \<and>
          h_ds_id a = (case node_id (snd tn) of None \<Rightarrow> PStr ''missing-ID'' | Some v \<Rightarrow> v) \<and>
          h_date a = (case node_date (snd tn) of None \<Rightarrow> PStr ''missing-DATE'' | Some v \<Rightarrow> v))"

text \<open>The nodes \<open>handle_data\<close> walks through for a list of tickers, each with its
  ticker, in order.\<close>

definition nodes_of :: "dataset \<Rightarrow> string list \<Rightarrow> (string \<times> node) list" where
  "nodes_of data ts =
     concat (map (\<lambda>t. map (Pair t) (case map_of data t of None \<Rightarrow> [] | Some nds \<Rightarrow> nds)) ts)"

subsection \<open>Loading from an external source\<close>

definition path_truthy :: "string option \<Rightarrow> bool" where
  "path_truthy p = (case p of None \<Rightarrow> False | Some x \<Rightarrow> x \<noteq> [])"

definition load_from_external_source ::
  "deps \<Rightarrow> algo \<Rightarrow> string option \<Rightarrow> string option \<Rightarrow> string option \<Rightarrow> algo \<times> exn option" where
  "load_from_external_source dp s path_to_file s3_key redis_key =
     (let s1 = (if path_truthy path_to_file then s\<lparr>load_from_file := path_to_file\<rparr> else s);
          s2 = (if path_truthy s3_key then s1\<lparr>load_from_s3 := s3_key\<rparr> else s1);
          s3 = (if path_truthy redis_key then s2\<lparr>load_from_redis := redis_key\<rparr> else s2)
      in if path_truthy (load_from_s3 s3) then
           (s3\<lparr>debug_msg := [Lit ''external load START - s3='',
                              Arg (case load_from_s3 s3 of Some k \<Rightarrow> PStr k | None \<Rightarrow> PNone)]\<rparr>, None)
         else if path_truthy (load_from_redis s3) then
           (s3\<lparr>debug_msg := [Lit ''external load START - redis='',
                              Arg (case load_from_redis s3 of Some k \<Rightarrow> PStr k | None \<Rightarrow> PNone)]\<rparr>,
            None)
         else if path_truthy (load_from_file s3) then
           (case load_from_file s3 of
              None \<Rightarrow> (s3, None)
            | Some file \<Rightarrow>
                if path_exists dp file then
                  (let s4 = s3\<lparr>debug_msg := [Lit ''external load START - file='', Arg (PStr file)]\<rparr>
                   in case load_algo_dataset_from_file dp file (load_is_compress s4) of
                        Inl e \<Rightarrow> (s4, Some e)
                      | Inr loaded \<Rightarrow>
                          (let s5 = s4\<lparr>loaded_dataset := loaded\<rparr>
                           in if dataset_truthy (loaded_dataset s5) then
                                (s5\<lparr>debug_msg := [Lit ''external load SUCCESS - file='',
                                                   Arg (PStr file)]\<rparr>, None)
                              else
                                (s5\<lparr>debug_msg := [Lit ''external load FAILED - file='',
                                                   Arg (PStr file)]\<rparr>,
                                 Some (Exception (''external load FAILED - file='' @ file)))))
                else
                  (s3\<lparr>debug_msg := [Lit ''external load - did not find file='', Arg (PStr file)]\<rparr>,
                   Some (Exception (''external load - did not find file='' @ file))))
         else (s3, None))"


subsection \<open>Publishing\<close>

text \<open>\<open>json.dumps({'test': 'hello'})\<close>, the payload both methods below build.\<close>

definition test_payload :: string where
  \<open>test_payload = ''{"test": "hello"}''\<close>

text \<open>
  \<open>publish.publish\<close> is not among the sources: it is the parameter \<open>publish\<close>,
  which returns a status or raises. Each method returns the calls it made on it and
  either the exception that left the method or the pair of status and output file.
\<close>

definition publish_report_datasets ::
  "(publish_call \<Rightarrow> exn + status) \<Rightarrow> algo \<Rightarrow> pydict \<Rightarrow>
     publish_call list \<times> (exn + status \<times> file_arg)" where
  "publish_report_datasets publish s kwargs =
     (let output_dir = dict_get kwargs ''output_dir'' (output_file_dir s);
          output_file0 = dict_get kwargs ''output_file'' (report_output_file s);
          output_file =
            (if raise_on_err s \<and> \<not> truthy output_file0
             then File_derived [Arg output_dir, Lit ''/report-'', Arg (output_file_prefix s),
                                Lit ''.json'']
             else File_given output_file0)
      in if \<not> publish_report s then ([], Inr (NOT_RUN, output_file))
         else if \<not> file_truthy output_file then ([], Inr (INVALID, output_file))
         else if file_truthy output_file then
           (let call =
                  \<lparr>pub_data = test_payload,
                   pub_label = dict_get kwargs ''label'' (PStr (name s)),
                   pub_convert_to_json =
                     dict_get kwargs ''convert_to_json'' (report_convert_to_json s),
                   pub_output_file = output_file,
                   pub_compress = dict_get kwargs ''compress'' (report_compress s),
                   pub_redis_enabled = dict_get kwargs ''redis_enabled'' (report_redis_enabled s),
                   pub_redis_key = dict_get kwargs ''redis_key'' (report_redis_key s),
                   pub_redis_address = dict_get kwargs ''redis_address'' (report_redis_address s),
                   pub_redis_db = dict_get kwargs ''redis_db'' (report_redis_db s),
                   pub_redis_password =
                     dict_get kwargs ''redis_password'' (report_redis_password s),
                   pub_redis_expire = dict_get kwargs ''redis_expire'' (report_redis_expire s),
                   pub_redis_serializer =
                     dict_get kwargs ''redis_serializer'' (report_redis_serializer s),
                   pub_redis_encoding =
                     dict_get kwargs ''redis_encoding'' (report_redis_encoding s),
                   pub_s3_enabled = dict_get kwargs ''s3_enabled'' (report_s3_enabled s),
                   pub_s3_key = dict_get kwargs ''s3_key'' (report_s3_key s),
                   pub_s3_address = dict_get kwargs ''s3_address'' (report_s3_address s),
                   pub_s3_bucket = dict_get kwargs ''s3_bucket'' (report_s3_bucket s),
                   pub_s3_access_key = dict_get kwargs ''s3_access_key'' (report_s3_access_key s),
                   pub_s3_secret_key = dict_get kwargs ''s3_secret_key'' (report_s3_secret_key s),
                   pub_s3_region_name =
                     dict_get kwargs ''s3_region_name'' (report_s3_region_name s),
                   pub_s3_secure = dict_get kwargs ''s3_secure'' (report_s3_secure s),
                   pub_slack_enabled = dict_get kwargs ''slack_enabled'' (report_slack_enabled s),
                   pub_slack_code_block =
                     dict_get kwargs ''slack_code_block'' (report_slack_code_block s),
                   pub_slack_full_width =
                     dict_get kwargs ''slack_full_width'' (report_slack_full_width s),
                   pub_verbose = dict_get kwargs ''verbose'' (report_verbose s)\<rparr>
            in case publish call of
                 Inl e \<Rightarrow> ([call], Inl e)
               | Inr publish_status \<Rightarrow> ([call], Inr (publish_status, output_file)))
         else ([], Inr (NOT_RUN, output_file)))"

definition publish_trade_history ::
  "(publish_call \<Rightarrow> exn + status) \<Rightarrow> algo \<Rightarrow> pydict \<Rightarrow>
     publish_call list \<times> (exn + status \<times> file_arg)" where
  "publish_trade_history publish s kwargs =
     (let output_dir = dict_get kwargs ''output_dir'' (output_file_dir s);
          output_file0 = dict_get kwargs ''output_file'' (history_output_file s);
          output_file =
            (if raise_on_err s \<and> \<not> truthy output_file0
             then File_derived [Arg output_dir, Lit ''/history-'', Arg (output_file_prefix s),
                                Lit ''.json'']
             else File_given output_file0)
      in if \<not> publish_history s then ([], Inr (NOT_RUN, output_file))
         else if \<not> file_truthy output_file then ([], Inr (INVALID, output_file))
         else if file_truthy output_file then
           (let call =
                  \<lparr>pub_data = test_payload,
                   pub_label = dict_get kwargs ''label'' (PStr (name s)),
                   pub_convert_to_json =
                     dict_get kwargs ''convert_to_json'' (history_convert_to_json s),
                   pub_output_file = output_file,
                   pub_compress = dict_get kwargs ''compress'' (history_compress s),
                   pub_redis_enabled = dict_get kwargs ''redis_enabled'' (history_redis_enabled s),
                   pub_redis_key = dict_get kwargs ''redis_key'' (history_redis_key s),
                   pub_redis_address = dict_get kwargs ''redis_address'' (history_redis_address s),
                   pub_redis_db = dict_get kwargs ''redis_db'' (history_redis_db s),
                   pub_redis_password =
                     dict_get kwargs ''redis_password'' (history_redis_password s),
                   pub_redis_expire = dict_get kwargs ''redis_expire'' (history_redis_expire s),
                   pub_redis_serializer =
                     dict_get kwargs ''redis_serializer'' (history_redis_serializer s),
                   pub_redis_encoding =
                     dict_get kwargs ''redis_encoding'' (history_redis_encoding s),
                   pub_s3_enabled = dict_get kwargs ''s3_enabled'' (history_s3_enabled s),
                   pub_s3_key = dict_get kwargs ''s3_key'' (history_s3_key s),
                   pub_s3_address = dict_get kwargs ''s3_address'' (history_s3_address s),
                   pub_s3_bucket = dict_get kwargs ''s3_bucket'' (history_s3_bucket s),
                   pub_s3_access_key = dict_get kwargs ''s3_access_key'' (history_s3_access_key s),
                   pub_s3_secret_key = dict_get kwargs ''s3_secret_key'' (history_s3_secret_key s),
                   pub_s3_region_name =
                     dict_get kwargs ''s3_region_name'' (history_s3_region_name s),
                   pub_s3_secure = dict_get kwargs ''s3_secure'' (history_s3_secure s),
                   pub_slack_enabled = dict_get kwargs ''slack_enabled'' (history_slack_enabled s),
                   pub_slack_code_block =
                     dict_get kwargs ''slack_code_block'' (history_slack_code_block s),
                   pub_slack_full_width =
                     dict_get kwargs ''slack_full_width'' (history_slack_full_width s),
                   pub_verbose = dict_get kwargs ''verbose'' (history_verbose s)\<rparr>
            in case publish call of
                 Inl e \<Rightarrow> ([call], Inl e)
               | Inr publish_status \<Rightarrow> ([call], Inr (publish_status, output_file)))
         else ([], Inr (NOT_RUN, output_file)))"

subsection \<open>Configuration replay\<close>

text \<open>
  \<open>load_from_config\<close> works on \<open>self.__dict__\<close>, the dictionary from member names
  to member values, whatever the values are: for each key of the configuration that is
  already a member name, the member is assigned the configured value. A configuration
  that is \<open>None\<close> or empty changes nothing.
\<close>

fun assign_existing ::
  "(string \<times> 'v) list \<Rightarrow> (string \<times> 'v) list \<Rightarrow> string list \<Rightarrow> (string \<times> 'v) list" where
  "assign_existing members config_dict [] = members"
| "assign_existing members config_dict (k # ks) =
     assign_existing
       (case map_of config_dict k of
          None \<Rightarrow> members
        | Some v \<Rightarrow> if map_of members k \<noteq> None then dict_set members k v else members)
       config_dict ks"

definition load_from_config ::
  "(string \<times> 'v) list \<Rightarrow> (string \<times> 'v) list option \<Rightarrow> (string \<times> 'v) list" where
  "load_from_config members config_dict =
     (case config_dict of
        None \<Rightarrow> members
      | Some cfg \<Rightarrow> if cfg \<noteq> [] then assign_existing members cfg (map fst cfg) else members)"

subsection \<open>Tracking key and default paths\<close>

text \<open>
  The statements of \<open>__init__\<close> from \<open># parse optional input args\<close> to the default
  cache keys: they derive the tracking key, the output directory and the default file
  paths and keys. \<open>now\<close> is what \<open>utc_now_str(fmt='%Y-%m-%d-%H-%M-%S.%f')\<close> returns;
  \<open>name\<close> is the member \<open>self.name\<close>, already defaulted to \<open>'eqa'\<close>.
\<close>

record default_keys =
  save_as_key :: string
  init_output_file_dir :: "string option"
  default_output_file :: string
  default_s3_key :: string
  default_redis_key :: string
  default_input_output_file :: string
  default_history_output_file :: string
  default_report_output_file :: string
  default_input_redis_key :: string
  default_history_redis_key :: string
  default_report_redis_key :: string

text \<open>\<open>'{}'.format(x)\<close> for a string or \<open>None\<close>.\<close>

definition str_of :: "string option \<Rightarrow> string" where
  "str_of x = (case x of None \<Rightarrow> ''None'' | Some t \<Rightarrow> t)"

definition init_default_keys ::
  "string \<Rightarrow> string option \<Rightarrow> string option \<Rightarrow> string \<Rightarrow> default_keys" where
  "init_default_keys algo_name use_key output_dir now =
     (let key = (if \<not> path_truthy use_key
                 then filter (\<lambda>c. c \<noteq> CHR '' '') algo_name @ ''-'' @ now
                 else str_of use_key);
          dir0 = Some ''/opt/sa/tests/datasets/algo'';
          dir = (if \<not> path_truthy output_dir then output_dir else dir0)
      in \<lparr>save_as_key = key,
          init_output_file_dir = dir,
          default_output_file = str_of dir @ ''/'' @ key @ ''.json'',
          default_s3_key = key @ ''.json'',
          default_redis_key = key,
          default_input_output_file = str_of dir @ ''/input-'' @ key @ ''.json'',
          default_history_output_file = str_of dir @ ''/history-'' @ key @ ''.json'',
          default_report_output_file = str_of dir @ ''/report-'' @ key @ ''.json'',
          default_input_redis_key = ''algo:input:'' @ key,
          default_history_redis_key = ''algo:history:'' @ key,
          default_report_redis_key = ''algo:output:'' @ key\<rparr>)"


section \<open>Order builders of the specification, and example inputs\<close>

text \<open>
  Modelled from the spec: the sell path of the order construction component
  (\<open>build_sell_order\<close>), which is not among the sources. With an explicit share
  count it sells that many, capped at the owned shares; otherwise it sells all owned
  shares. If shares are owned the order is filled, with the count of shares sold, the
  close as sell price and \<open>balance + (shares \<times> close - commission)\<close>; if nothing is
  owned the order is not filled and the balance is unchanged.
\<close>

definition price_of :: "jval \<Rightarrow> exn + real" where
  "price_of v = (case v of PFloat r \<Rightarrow> Inr r | PInt i \<Rightarrow> Inr (of_int i) | _ \<Rightarrow> Inl TypeError)"

definition build_sell_order_spec :: "order_request \<Rightarrow> exn + order" where
  "build_sell_order_spec req =
     (case price_of (req_close req) of
        Inl e \<Rightarrow> Inl e
      | Inr close \<Rightarrow>
          (let sold = (case req_shares req of
                         None \<Rightarrow> req_num_owned req
                       | Some k \<Rightarrow> min k (req_num_owned req))
           in if req_num_owned req > 0 then
                Inr \<lparr>ord_status = TRADE_FILLED, ord_ticker = req_ticker req, ord_shares = sold,
                     ord_price = close,
                     ord_balance = req_balance req + (of_int sold * close - req_commission req),
                     ord_date = req_date req, ord_details = req_details req,
                     ord_reason = req_reason req\<rparr>
              else
                Inr \<lparr>ord_status = OTHER_STATUS 0, ord_ticker = req_ticker req, ord_shares = 0,
                     ord_price = close, ord_balance = req_balance req,
                     ord_date = req_date req, ord_details = req_details req,
                     ord_reason = req_reason req\<rparr>))"

text \<open>
  Modelled from the spec: the buy path (\<open>build_buy_order\<close>), which is not among
  the sources. With an explicit share count it tries to fill that many; otherwise the
  largest whole number of shares with \<open>shares \<times> close + commission \<le> balance\<close>. A
  count of at least one that is affordable gives a filled order with
  \<open>balance - (shares \<times> close + commission)\<close>; otherwise the order is not filled and
  the balance is unchanged.
\<close>

definition build_buy_order_spec :: "order_request \<Rightarrow> exn + order" where
  "build_buy_order_spec req =
     (case price_of (req_close req) of
        Inl e \<Rightarrow> Inl e
      | Inr close \<Rightarrow>
          (let wanted = (case req_shares req of
                           Some k \<Rightarrow> k
                         | None \<Rightarrow> if close > 0
                                   then \<lfloor>(req_balance req - req_commission req) / close\<rfloor>
                                   else 0)
           in if wanted \<ge> 1 \<and> of_int wanted * close + req_commission req \<le> req_balance req then
                Inr \<lparr>ord_status = TRADE_FILLED, ord_ticker = req_ticker req, ord_shares = wanted,
                     ord_price = close,
                     ord_balance = req_balance req - (of_int wanted * close + req_commission req),
                     ord_date = req_date req, ord_details = req_details req,
                     ord_reason = req_reason req\<rparr>
              else
                Inr \<lparr>ord_status = OTHER_STATUS 0, ord_ticker = req_ticker req, ord_shares = 0,
                     ord_price = close, ord_balance = req_balance req,
                     ord_date = req_date req, ord_details = req_details req,
                     ord_reason = req_reason req\<rparr>))"

text \<open>Helpers for the examples: the two builders above, a trade history builder that
  keeps the ticker, the dataset id and the close, a percent label, and a file system
  with no file.\<close>

definition demo_deps :: deps where
  "demo_deps =
     \<lparr>build_buy_order = build_buy_order_spec,
      build_sell_order = build_sell_order_spec,
      build_trade_history_entry =
        (\<lambda>a. Inr (PDict [(''ticker'', PStr (h_ticker a)), (''ds_id'', h_ds_id a),
                         (''close'', PFloat (h_close a))])),
      get_percent_done = (\<lambda>progress n. show_nat (progress * 100 div n) @ ''%''),
      path_exists = (\<lambda>p. False),
      load_algo_dataset_from_file = (\<lambda>p c. Inr None)\<rparr>"

text \<open>
  The members after \<open>BaseAlgo(ticker='SPY', balance=1000.0, name='demo', use_key='run1')\<close>,
  for one choice of the constants of \<open>analysis_engine.consts\<close> (sinks disabled). No
  output directory is given, so the constructor leaves \<open>output_file_dir\<close> at \<open>None\<close>
  and the default paths start with \<open>None/\<close>.
\<close>

definition demo_algo :: algo where
  "demo_algo =
     \<lparr>buys = [], sells = [], tickers = Some [''SPY''], ticker = None,
      balance = 1000, starting_balance = 1000, starting_close = 0, commission = 6,
      name = ''demo'', num_owned = None, num_buys = None, num_sells = None,
      trade_price = 0, latest_close = 0, latest_high = 0, latest_open = 0, latest_low = 0,
      latest_volume = 0, ask = 0, bid = 0, prev_bal = None, prev_num_owned = None,
      ds_id = PNone, trade_date = PNone, trade_type = PInt 1, buy_hold_units = PInt 20,
      sell_hold_units = PInt 20, spread_exp_date = PNone, order_history = [],
      positions = [], created_buy = False, should_buy = False, buy_strength = PNone,
      buy_risk = PNone, created_sell = False, should_sell = False, sell_strength = PNone,
      sell_risk = PNone, stop_loss = PNone, trailing_stop_loss = PNone,
      last_handle_data = None, last_history_dict = PNone, last_ds_id = PNone,
      last_ds_date = PNone, last_ds_data = No_data, ds_date = PNone, ds_data = No_data,
      df_daily = Frame (DataFrame [] [[]]), df_minute = Frame (DataFrame [] [[]]),
      df_stats = Frame (DataFrame [] [[]]), df_peers = Frame (DataFrame [] [[]]),
      df_financials = Frame (DataFrame [] []), df_earnings = Frame (DataFrame [] [[]]),
      df_dividends = Frame (DataFrame [] [[]]), df_quote = Frame (DataFrame [] [[]]),
      df_company = Frame (DataFrame [] [[]]), df_iex_news = Frame (DataFrame [] [[]]),
      df_yahoo_news = Frame (DataFrame [] [[]]), df_options = Frame (DataFrame [] [[]]),
      empty_pd = Frame (DataFrame [] [[]]), df_pricing = Plain (PDict []),
      note_text = PNone, debug_msg = [], version = PInt 1,
      publish_history = True, publish_report = True, raise_on_err = False,
      output_file_dir = PNone, output_file_prefix = PNone,
      history_output_file = PStr ''None/history-run1.json'', history_convert_to_json = PBool True,
      history_compress = PBool False, history_redis_enabled = PBool False,
      history_redis_address = PBool False, history_redis_db = PInt 0,
      history_redis_password = PNone, history_redis_expire = PNone,
      history_redis_serializer = PStr ''json'', history_redis_encoding = PStr ''utf-8'',
      history_s3_enabled = PBool False, history_s3_address = PStr ''localhost:9000'',
      history_s3_bucket = PStr ''algohistory'', history_s3_access_key = PStr ''access'',
      history_s3_secret_key = PStr ''secret'', history_s3_region_name = PStr ''us-east-1'',
      history_s3_secure = PStr ''0'', history_slack_enabled = PBool False,
      history_slack_code_block = PBool False, history_slack_full_width = PBool False,
      history_redis_key = PStr ''algo:history:run1'', history_s3_key = PStr ''run1.json'',
      history_verbose = PBool False,
      report_output_file = PStr ''None/report-run1.json'', report_convert_to_json = PBool True,
      report_compress = PBool False, report_redis_enabled = PBool False,
      report_redis_address = PBool False, report_redis_db = PInt 0,
      report_redis_password = PNone, report_redis_expire = PNone,
      report_redis_serializer = PStr ''json'', report_redis_encoding = PStr ''utf-8'',
      report_s3_enabled = PBool False, report_s3_address = PStr ''localhost:9000'',
      report_s3_bucket = PStr ''algoreport'', report_s3_access_key = PStr ''access'',
      report_s3_secret_key = PStr ''secret'', report_s3_region_name = PStr ''us-east-1'',
      report_s3_secure = PStr ''0'', report_slack_enabled = PBool False,
      report_slack_code_block = PBool False, report_slack_full_width = PBool False,
      report_redis_key = PStr ''algo:output:run1'', report_s3_key = PStr ''run1.json'',
      report_verbose = PBool False,
      load_from_s3 = None, load_from_redis = None, load_from_file = None,
      load_is_compress = False, loaded_dataset = None\<rparr>"


text \<open>Defaults for the pricing task with a non-empty ticker placeholder and both sinks
  off, and sinks on which every call but the connection raises.\<close>

definition demo_consts :: env_consts where
  "demo_consts =
     \<lparr>TICKER = PStr ''SPY'', TICKER_ID = PInt 1, ENABLED_S3_UPLOAD = PBool False,
      S3_ACCESS_KEY = PStr ''access'', S3_SECRET_KEY = PStr ''secret'',
      S3_REGION_NAME = PStr ''us-east-1'', S3_ADDRESS = PStr ''localhost:9000'',
      S3_SECURE = PStr ''0'', ENABLED_REDIS_PUBLISH = PBool False,
      REDIS_ADDRESS = PStr ''localhost:6379'', REDIS_KEY = PStr ''pricing-key'',
      REDIS_PASSWORD = PNone, REDIS_DB = PInt 0, REDIS_EXPIRE = PNone\<rparr>"

definition failing_world :: world where
  "failing_world =
     \<lparr>s3_resource = None, bucket_listed = Inl (ClientError ''down''),
      create_bucket = Some (ClientError ''down''), put_object = Some (ClientError ''down''),
      redis_connect = None, redis_set = Some (ClientError ''down'')\<rparr>"


text \<open>Sinks where the bucket is missing and its creation, the object write and the
  cache connection all raise.\<close>

definition missing_bucket_world :: world where
  "missing_bucket_world =
     \<lparr>s3_resource = None, bucket_listed = Inr False,
      create_bucket = Some (ClientError ''denied''), put_object = Some (ClientError ''denied''),
      redis_connect = Some (ClientError ''refused''), redis_set = None\<rparr>"

text \<open>Example inputs for the engine: an engine that owns ten shares of SPY, rows with
  a close and a date, the engine after a first filled buy, dataset nodes without and
  with a pricing map, an engine that has recorded one trade history entry, and a
  dataset loaded from a file.\<close>

definition owning_algo :: algo where
  "owning_algo =
     demo_algo\<lparr>positions := [(''SPY'', \<lparr>pos_shares = 10, pos_buys = [], pos_sells = []\<rparr>)]\<rparr>"

definition row50 :: row where
  "row50 = Row_dict [(''close'', PFloat 50), (''date'', PStr ''2018-11-05'')]"

definition row270 :: row where
  "row270 = Row_dict [(''close'', PFloat 270), (''date'', PStr ''2018-11-05'')]"

definition first_fill :: algo where
  "first_fill = fst (create_buy_order demo_deps demo_algo ''SPY'' row270 None None)"

definition empty_node :: node where
  "empty_node =
     \<lparr>node_id = Some (PStr ''SPY_2018-11-05''), node_date = Some (PStr ''2018-11-05''),
      node_data = Some []\<rparr>"

definition pricing_node :: node where
  "pricing_node =
     \<lparr>node_id = Some (PStr ''SPY_2018-11-05''), node_date = Some (PStr ''2018-11-05''),
      node_data = Some [(''pricing'', Plain (PDict [(''bid'', PFloat 271)]))]\<rparr>"

definition daily_node :: node where
  "daily_node =
     \<lparr>node_id = Some (PStr ''SPY_2018-11-05''), node_date = Some (PStr ''2018-11-05''),
      node_data =
        Some [(''daily'',
               Frame (DataFrame [''close'', ''high'']
                        [[(''close'', CFloat 272), (''high'', CInt 280)]]))]\<rparr>"

definition traded_algo :: algo where
  "traded_algo =
     demo_algo\<lparr>order_history := [PDict [(''ticker'', PStr ''SPY''), (''close'', PFloat 272)]],
                df_daily := Frame (DataFrame [''close''] [[(''close'', CFloat 272)]])\<rparr>"

definition loaded_algo :: algo where
  "loaded_algo = demo_algo\<lparr>loaded_dataset := Some [(''SPY'', [daily_node])]\<rparr>"

definition disabled_algo :: algo where
  "disabled_algo = demo_algo\<lparr>publish_report := False\<rparr>"

text \<open>A few members of an engine as \<open>__dict__\<close> holds them, and a configuration with
  one member name and one unknown key.\<close>

definition demo_members :: "(string \<times> jval) list" where
  "demo_members = [(''balance'', PFloat 1000), (''name'', PStr ''demo''), (''commission'', PFloat 6)]"

definition demo_config :: "(string \<times> jval) list" where
  "demo_config = [(''commission'', PFloat 2), (''unknown_key'', PInt 7)]"

text \<open>An argument for \<open>handle_data\<close> that differs from the loaded dataset: two
  nodes of another date without data tables.\<close>

definition other_data :: dataset where
  "other_data =
     [(''SPY'', [\<lparr>node_id = Some (PStr ''SPY_2019-01-02''), node_date = Some (PStr ''2019-01-02''),
                  node_data = Some []\<rparr>,
                 \<lparr>node_id = Some (PStr ''SPY_2019-01-03''), node_date = Some (PStr ''2019-01-03''),
                  node_data = Some []\<rparr>])]"

text \<open>A work order that names a ticker and switches both sinks on.\<close>

definition both_sinks_order :: pydict where
  "both_sinks_order =
     [(''ticker'', PStr ''AAPL''), (''ticker_id'', PStr '' 12 ''), (''s3_enabled'', PBool True),
      (''redis_enabled'', PBool True), (''s3_key'', PStr ''AAPL_latest''),
      (''data'', PDict [(''close'', PInt 270)])]"

section \<open>The pricing republish task: results\<close>

text \<open>
  Claim C4 as stated fails: a work order without the \<open>ticker\<close> field takes the
  placeholder \<open>TICKER\<close>. With a non-empty placeholder and both sinks off, the empty
  work order ends in \<open>SUCCESS\<close> and no message \<open>'missing ticker'\<close>.
\<close>

theorem missing_ticker_field_counterexample:
  "\<not> dict_has [] ''ticker'' \<and>
   res_status (snd (publish_pricing_update demo_consts failing_world [])) = SUCCESS \<and>
   res_err (snd (publish_pricing_update demo_consts failing_world [])) \<noteq>
     Some (Err_text ''missing ticker'')"
  by (simp add: publish_pricing_update_def publish_pricing_body_def demo_consts_def
        dict_get_def dict_has_def Let_def build_result_def)

text \<open>
  Claim C4, amended: when the ticker the task resolves (the \<open>ticker\<close> field, or the
  placeholder \<open>TICKER\<close> if the field is absent) is false in Python's sense, and
  \<open>int()\<close> accepts the resolved ticker id, the task returns \<open>ERR\<close> with the message
  \<open>'missing ticker'\<close> and the initial record, and calls neither sink.
\<close>

theorem missing_ticker:
  assumes "\<not> truthy (dict_get wd ''ticker'' (TICKER c))"
      and "py_int (dict_get wd ''ticker_id'' (TICKER_ID c)) = Inr i"
  shows "publish_pricing_update c w wd =
           ([], build_result ERR (Some (Err_text ''missing ticker'')) (Some initial_rec))"
  using assms by (simp add: publish_pricing_update_def publish_pricing_body_def Let_def)

theorem missing_ticker_witness:
  "\<not> truthy (dict_get [(''ticker'', PStr ''''), (''s3_enabled'', PBool True)] ''ticker''
               (TICKER demo_consts)) \<and>
   py_int (dict_get [(''ticker'', PStr ''''), (''s3_enabled'', PBool True)] ''ticker_id''
             (TICKER_ID demo_consts)) = Inr 1 \<and>
   publish_pricing_update demo_consts failing_world
       [(''ticker'', PStr ''''), (''s3_enabled'', PBool True)] =
     ([], build_result ERR (Some (Err_text ''missing ticker'')) (Some initial_rec))"
proof -
  let ?wd = "[(''ticker'', PStr ''''), (''s3_enabled'', PBool True)]"
  have h1: "\<not> truthy (dict_get ?wd ''ticker'' (TICKER demo_consts))"
    by (simp add: dict_get_def)
  have h2: "py_int (dict_get ?wd ''ticker_id'' (TICKER_ID demo_consts)) = Inr 1"
    by (simp add: dict_get_def demo_consts_def)
  show ?thesis
    using h1 h2 missing_ticker [OF h1 h2, of failing_world] by simp
qed

text \<open>
  Claim C8 as stated fails: a work order whose ticker is the empty string raises
  nothing inside the outer \<open>try\<close>, and the task returns \<open>ERR\<close>.
\<close>

theorem no_exception_yet_err_counterexample:
  "snd (publish_pricing_body demo_consts failing_world [(''ticker'', PStr '''')]) =
     Inr (build_result ERR (Some (Err_text ''missing ticker'')) (Some initial_rec)) \<and>
   res_status (snd (publish_pricing_update demo_consts failing_world [(''ticker'', PStr '''')]))
     = ERR"
  by (simp add: publish_pricing_update_def publish_pricing_body_def demo_consts_def
        dict_get_def Let_def build_result_def)

text \<open>In the body of the outer \<open>try\<close>, three statements stand outside every
  inner \<open>try\<close>: the conversion of the ticker id, the construction of the S3 resource
  and the split of the cache address. When the ticker is true and no exception leaves
  the body, none of them raised.\<close>

lemma escapes_only_outside_inner_try:
  assumes "truthy (dict_get wd ''ticker'' (TICKER c))"
      and "\<not> isl (snd (publish_pricing_body c w wd))"
  shows "(\<exists>i. py_int (dict_get wd ''ticker_id'' (TICKER_ID c)) = Inr i) \<and>
         (truthy (dict_get wd ''s3_enabled'' (ENABLED_S3_UPLOAD c)) \<longrightarrow> s3_resource w = None) \<and>
         (truthy (dict_get wd ''redis_enabled'' (ENABLED_REDIS_PUBLISH c)) \<longrightarrow>
            (\<exists>a host port rest.
               dict_get wd ''redis_address'' (REDIS_ADDRESS c) = PStr a \<and>
               split_on CHR '':'' a = host # port # rest))"
  using assms
  by (auto simp: publish_pricing_body_def Let_def s3_upload_def redis_publish_def
           split: sum.splits option.splits if_splits jval.splits list.splits)

lemma s3_upload_run:
  assumes "s3_resource w = None"
  shows "s3_upload c w wd b k d =
           ((S3_resource (dict_get wd ''s3_secure'' (S3_SECURE c) = PStr ''1'')
               (dict_get wd ''s3_address'' (S3_ADDRESS c))
               (dict_get wd ''s3_access_key'' (S3_ACCESS_KEY c))
               (dict_get wd ''s3_secret_key'' (S3_SECRET_KEY c))
               (dict_get wd ''s3_region_name'' (S3_REGION_NAME c)), None) #
            (S3_bucket_check b, case bucket_listed w of Inl e \<Rightarrow> Some e | Inr present \<Rightarrow> None) #
            (case bucket_listed w of
               Inr False \<Rightarrow> [(S3_create_bucket b, create_bucket w)]
             | _ \<Rightarrow> []) @
            [(S3_put_object b k d, put_object w)], None)"
  using assms
  by (simp add: s3_upload_def Let_def split: sum.splits bool.splits)

lemma redis_publish_run:
  assumes "dict_get wd ''redis_address'' (REDIS_ADDRESS c) = PStr a"
      and "split_on CHR '':'' a = host # port # rest"
  shows "redis_publish c w wd d =
           ((Redis_connect host port (dict_get wd ''redis_password'' (REDIS_PASSWORD c))
               (if \<not> truthy (dict_get wd ''redis_db'' PNone) then REDIS_DB c
                else dict_get wd ''redis_db'' PNone), redis_connect w) #
            (case redis_connect w of
               None \<Rightarrow>
                 [(Redis_set (dict_get wd ''redis_key'' (REDIS_KEY c)) d
                     (if dict_has wd ''redis_expire''
                      then dict_get wd ''redis_expire'' (REDIS_EXPIRE c) else PNone),
                   redis_set w)]
             | Some e \<Rightarrow> []), None)"
  using assms
  by (simp add: redis_publish_def Let_def split: option.splits)

text \<open>
  Claim C8, amended: for every work order with a true ticker on which none of the three
  statements outside an inner \<open>try\<close> raises (the ticker id converts, the S3 resource is
  built when the archive is enabled, the cache address splits into host and port when
  the cache is enabled), no exception leaves the body and the task returns \<open>SUCCESS\<close>
  with no error, whatever the bucket check, the bucket creation, the object write, the
  cache connection and the cache write raise. The calls made are exactly: for an enabled
  archive the resource, the bucket check, the bucket creation if the bucket is missing,
  and the object write; then for an enabled cache the connection and, if it was made,
  the write; each recorded with what it raised.
\<close>

theorem sink_failures_swallowed:
  assumes "truthy (dict_get wd ''ticker'' (TICKER c))"
      and "py_int (dict_get wd ''ticker_id'' (TICKER_ID c)) = Inr i"
      and "truthy (dict_get wd ''s3_enabled'' (ENABLED_S3_UPLOAD c)) \<longrightarrow> s3_resource w = None"
      and "truthy (dict_get wd ''redis_enabled'' (ENABLED_REDIS_PUBLISH c)) \<longrightarrow>
             dict_get wd ''redis_address'' (REDIS_ADDRESS c) = PStr a \<and>
             split_on CHR '':'' a = host # port # rest"
  shows "\<not> isl (snd (publish_pricing_body c w wd)) \<and>
         res_status (snd (publish_pricing_update c w wd)) = SUCCESS \<and>
         res_err (snd (publish_pricing_update c w wd)) = None \<and>
         fst (publish_pricing_update c w wd) =
           (if truthy (dict_get wd ''s3_enabled'' (ENABLED_S3_UPLOAD c)) then
              (S3_resource (dict_get wd ''s3_secure'' (S3_SECURE c) = PStr ''1'')
                 (dict_get wd ''s3_address'' (S3_ADDRESS c))
                 (dict_get wd ''s3_access_key'' (S3_ACCESS_KEY c))
                 (dict_get wd ''s3_secret_key'' (S3_SECRET_KEY c))
                 (dict_get wd ''s3_region_name'' (S3_REGION_NAME c)), None) #
              (S3_bucket_check (dict_get wd ''s3_bucket'' (PStr ''pricing'')),
               case bucket_listed w of Inl e \<Rightarrow> Some e | Inr present \<Rightarrow> None) #
              (case bucket_listed w of
                 Inr False \<Rightarrow>
                   [(S3_create_bucket (dict_get wd ''s3_bucket'' (PStr ''pricing'')),
                     create_bucket w)]
               | _ \<Rightarrow> []) @
              [(S3_put_object (dict_get wd ''s3_bucket'' (PStr ''pricing''))
                  (dict_get wd ''s3_key'' PNone) (dict_get wd ''data'' PNone), put_object w)]
            else []) @
           (if truthy (dict_get wd ''redis_enabled'' (ENABLED_REDIS_PUBLISH c)) then
              (Redis_connect host port (dict_get wd ''redis_password'' (REDIS_PASSWORD c))
                 (if \<not> truthy (dict_get wd ''redis_db'' PNone) then REDIS_DB c
                  else dict_get wd ''redis_db'' PNone), redis_connect w) #
              (case redis_connect w of
                 None \<Rightarrow>
                   [(Redis_set (dict_get wd ''redis_key'' (REDIS_KEY c))
                       (dict_get wd ''data'' PNone)
                       (if dict_has wd ''redis_expire''
                        then dict_get wd ''redis_expire'' (REDIS_EXPIRE c) else PNone),
                     redis_set w)]
               | Some e \<Rightarrow> [])
            else [])"
proof -
  let ?s3on = "truthy (dict_get wd ''s3_enabled'' (ENABLED_S3_UPLOAD c))"
  let ?rdon = "truthy (dict_get wd ''redis_enabled'' (ENABLED_REDIS_PUBLISH c))"
  show ?thesis
  proof (cases ?s3on; cases ?rdon)
    assume on: "?s3on" "?rdon"
    then show ?thesis
      using assms s3_upload_run [of w c wd] redis_publish_run [of wd c a host port rest w]
      by (simp add: publish_pricing_update_def publish_pricing_body_def Let_def build_result_def)
  next
    assume on: "?s3on" "\<not> ?rdon"
    then show ?thesis
      using assms s3_upload_run [of w c wd]
      by (simp add: publish_pricing_update_def publish_pricing_body_def Let_def build_result_def)
  next
    assume on: "\<not> ?s3on" "?rdon"
    then show ?thesis
      using assms redis_publish_run [of wd c a host port rest w]
      by (simp add: publish_pricing_update_def publish_pricing_body_def Let_def build_result_def)
  next
    assume on: "\<not> ?s3on" "\<not> ?rdon"
    then show ?thesis
      using assms
      by (simp add: publish_pricing_update_def publish_pricing_body_def Let_def build_result_def)
  qed
qed

theorem sink_failures_swallowed_witness:
  "truthy (dict_get both_sinks_order ''ticker'' (TICKER demo_consts)) \<and>
   py_int (dict_get both_sinks_order ''ticker_id'' (TICKER_ID demo_consts)) = Inr 12 \<and>
   s3_resource failing_world = None \<and> s3_resource missing_bucket_world = None \<and>
   dict_get both_sinks_order ''redis_address'' (REDIS_ADDRESS demo_consts) =
     PStr ''localhost:6379'' \<and>
   split_on CHR '':'' ''localhost:6379'' = [''localhost'', ''6379''] \<and>
   res_status (snd (publish_pricing_update demo_consts failing_world both_sinks_order)) = SUCCESS \<and>
   fst (publish_pricing_update demo_consts failing_world both_sinks_order) =
     [(S3_resource False (PStr ''localhost:9000'') (PStr ''access'') (PStr ''secret'')
         (PStr ''us-east-1''), None),
      (S3_bucket_check (PStr ''pricing''), Some (ClientError ''down'')),
      (S3_put_object (PStr ''pricing'') (PStr ''AAPL_latest'') (PDict [(''close'', PInt 270)]),
       Some (ClientError ''down'')),
      (Redis_connect ''localhost'' ''6379'' PNone (PInt 0), None),
      (Redis_set (PStr ''pricing-key'') (PDict [(''close'', PInt 270)]) PNone,
       Some (ClientError ''down''))] \<and>
   res_status (snd (publish_pricing_update demo_consts missing_bucket_world both_sinks_order))
     = SUCCESS \<and>
   fst (publish_pricing_update demo_consts missing_bucket_world both_sinks_order) =
     [(S3_resource False (PStr ''localhost:9000'') (PStr ''access'') (PStr ''secret'')
         (PStr ''us-east-1''), None),
      (S3_bucket_check (PStr ''pricing''), None),
      (S3_create_bucket (PStr ''pricing''), Some (ClientError ''denied'')),
      (S3_put_object (PStr ''pricing'') (PStr ''AAPL_latest'') (PDict [(''close'', PInt 270)]),
       Some (ClientError ''denied'')),
      (Redis_connect ''localhost'' ''6379'' PNone (PInt 0), Some (ClientError ''refused''))]"
proof -
  have h1: "truthy (dict_get both_sinks_order ''ticker'' (TICKER demo_consts))"
    by (simp add: both_sinks_order_def dict_get_def)
  have h2: "py_int (dict_get both_sinks_order ''ticker_id'' (TICKER_ID demo_consts)) = Inr 12"
    by (simp add: both_sinks_order_def dict_get_def int_of_str_def strip_def is_blank_def
          digit_val_def Let_def)
  have w1: "s3_resource failing_world = None" and w2: "s3_resource missing_bucket_world = None"
    by (simp_all add: failing_world_def missing_bucket_world_def)
  have a1: "dict_get both_sinks_order ''redis_address'' (REDIS_ADDRESS demo_consts) =
              PStr ''localhost:6379''"
    by (simp add: both_sinks_order_def dict_get_def demo_consts_def)
  have a2: "split_on CHR '':'' ''localhost:6379'' = [''localhost'', ''6379'']"
    by simp
  have h3: "truthy (dict_get both_sinks_order ''s3_enabled'' (ENABLED_S3_UPLOAD demo_consts)) \<longrightarrow>
              s3_resource wld = None" if "s3_resource wld = None" for wld
    using that by simp
  have h4: "truthy (dict_get both_sinks_order ''redis_enabled'' (ENABLED_REDIS_PUBLISH demo_consts))
              \<longrightarrow> dict_get both_sinks_order ''redis_address'' (REDIS_ADDRESS demo_consts) =
                    PStr ''localhost:6379'' \<and>
                  split_on CHR '':'' ''localhost:6379'' = ''localhost'' # ''6379'' # []"
    using a1 a2 by simp
  note r1 = sink_failures_swallowed [OF h1 h2 h3 [OF w1] h4]
  note r2 = sink_failures_swallowed [OF h1 h2 h3 [OF w2] h4]
  have e1: "res_status (snd (publish_pricing_update demo_consts failing_world both_sinks_order))
              = SUCCESS \<and>
            fst (publish_pricing_update demo_consts failing_world both_sinks_order) =
     [(S3_resource False (PStr ''localhost:9000'') (PStr ''access'') (PStr ''secret'')
         (PStr ''us-east-1''), None),
      (S3_bucket_check (PStr ''pricing''), Some (ClientError ''down'')),
      (S3_put_object (PStr ''pricing'') (PStr ''AAPL_latest'') (PDict [(''close'', PInt 270)]),
       Some (ClientError ''down'')),
      (Redis_connect ''localhost'' ''6379'' PNone (PInt 0), None),
      (Redis_set (PStr ''pricing-key'') (PDict [(''close'', PInt 270)]) PNone,
       Some (ClientError ''down''))]"
    using r1
    by (simp add: both_sinks_order_def dict_get_def dict_has_def demo_consts_def failing_world_def)
  have e2: "res_status (snd (publish_pricing_update demo_consts missing_bucket_world both_sinks_order))
              = SUCCESS \<and>
            fst (publish_pricing_update demo_consts missing_bucket_world both_sinks_order) =
     [(S3_resource False (PStr ''localhost:9000'') (PStr ''access'') (PStr ''secret'')
         (PStr ''us-east-1''), None),
      (S3_bucket_check (PStr ''pricing''), None),
      (S3_create_bucket (PStr ''pricing''), Some (ClientError ''denied'')),
      (S3_put_object (PStr ''pricing'') (PStr ''AAPL_latest'') (PDict [(''close'', PInt 270)]),
       Some (ClientError ''denied'')),
      (Redis_connect ''localhost'' ''6379'' PNone (PInt 0), Some (ClientError ''refused''))]"
    using r2
    by (simp add: both_sinks_order_def dict_get_def dict_has_def demo_consts_def
          missing_bucket_world_def)
  show ?thesis using h1 h2 w1 w2 a1 a2 e1 e2 by blast
qed


section \<open>The algorithm engine: results\<close>

lemmas order_defs = create_sell_order_def create_buy_order_def row_get_def row_items_def
  order_details_of_def get_owned_shares_def get_ticker_positions_def
  assign_ticker_positions_def demo_deps_def build_sell_order_spec_def
  build_buy_order_spec_def price_of_def Let_def

text \<open>
  Claim C1 fails on the code: a filled sell adds the returned share count to the
  position, as the buy path does. An engine that owns ten shares of SPY and sells all at
  a close of 50 with a commission of 6 gets a filled order for ten shares, its balance
  grows by \<open>10 \<times> 50 - 6\<close>, and the position then holds twenty shares, not zero.
\<close>

theorem sell_all_doubles_position:
  "get_owned_shares owning_algo ''SPY'' = 10 \<and>
   map ord_status (sells (fst (create_sell_order demo_deps owning_algo ''SPY'' row50 None None
                                 ''records'' ''iso''))) = [TRADE_FILLED] \<and>
   map ord_shares (sells (fst (create_sell_order demo_deps owning_algo ''SPY'' row50 None None
                                 ''records'' ''iso''))) = [10] \<and>
   get_owned_shares (fst (create_sell_order demo_deps owning_algo ''SPY'' row50 None None
                            ''records'' ''iso'')) ''SPY'' = 20 \<and>
   balance (fst (create_sell_order demo_deps owning_algo ''SPY'' row50 None None
                   ''records'' ''iso'')) = balance owning_algo + (10 * 50 - 6)"
  by (simp add: order_defs owning_algo_def row50_def demo_algo_def)

text \<open>
  Claim C5 fails on the code for the first fill: with no position for the ticker, a
  filled buy creates the position, appends the order to both buy lists, takes the
  order's balance and refreshes the three counters, but leaves \<open>created_buy\<close> false.
  The next filled buy for the same ticker, which finds the position, sets it.
\<close>

theorem first_fill_leaves_created_buy:
  "map_of (positions demo_algo) ''SPY'' = None \<and>
   map ord_status (buys first_fill) = [TRADE_FILLED] \<and>
   map_option pos_shares (map_of (positions first_fill) ''SPY'') = Some 3 \<and>
   map_option (map ord_shares \<circ> pos_buys) (map_of (positions first_fill) ''SPY'') = Some [3] \<and>
   balance first_fill = 184 \<and>
   num_owned first_fill = Some 3 \<and>
   \<not> created_buy first_fill \<and>
   created_buy (fst (create_buy_order demo_deps first_fill ''SPY'' row50 None None))"
  by (simp add: first_fill_def order_defs row270_def row50_def demo_algo_def)

lemma set_latest_keep:
  "df_pricing (fst (set_latest_high f s)) = df_pricing s"
  "df_pricing (fst (set_latest_low f s)) = df_pricing s"
  "df_pricing (fst (set_latest_open f s)) = df_pricing s"
  "df_pricing (fst (set_latest_close f s)) = df_pricing s"
  "df_pricing (fst (set_latest_volume f s)) = df_pricing s"
  by (simp_all add: set_latest_high_def set_latest_low_def set_latest_open_def
        set_latest_close_def set_latest_volume_def Let_def split: sum.splits)

lemma and_then_keeps:
  assumes "\<And>s. g (fst (f s)) = g s"
  shows "g (fst (and_then r f)) = g (fst r)"
  using assms by (cases r) (auto simp: and_then_def split: option.splits)

lemma latest_prices_keep: "df_pricing (fst (latest_prices s)) = df_pricing s"
  by (simp add: latest_prices_def and_then_keeps set_latest_keep split: dsval.splits)

lemma load_pricing:
  assumes "node_data nd = Some d"
  shows "df_pricing (fst (load_from_dataset s nd)) =
           or_empty_pd s (data_get d ''pricing'' (Plain (PDict [])))"
proof -
  obtain s5 where s5: "load_from_dataset s nd =
       (case latest_prices s5 of
          (s6, None) \<Rightarrow> (s6, None)
        | (s6, Some e) \<Rightarrow>
            (s6\<lparr>debug_msg :=
                  [Arg (PStr (name s6)), Lit '' handle - FAILED getting latest prices '',
                   Lit ''for algo='', Arg (ds_id s6), Lit '' - ds='', Arg (ds_date s6),
                   Lit '' ex='', Exc e]\<rparr>,
             if raise_on_err s6 then Some e else None))"
    and p: "df_pricing s5 = or_empty_pd s (data_get d ''pricing'' (Plain (PDict [])))"
    using assms by (simp add: load_from_dataset_def Let_def or_empty_pd_def)
  have "df_pricing (fst (load_from_dataset s nd)) = df_pricing (fst (latest_prices s5))"
    unfolding s5 by (cases "latest_prices s5") (simp split: option.splits)
  then show ?thesis using p latest_prices_keep by simp
qed

text \<open>
  Claim C2 fails on the code: the check \<open>hasattr(self.df_pricing, 'empty')\<close> replaces
  every pricing value that is a dictionary, the default \<open>{}\<close> included, by the empty
  tabular placeholder. Loading a node whose \<open>data\<close> is empty raises nothing.
\<close>

theorem pricing_member_replaced_by_placeholder:
  "df_pricing (fst (load_from_dataset s empty_node)) = empty_pd s \<and>
   df_pricing (fst (load_from_dataset s pricing_node)) = empty_pd s \<and>
   empty_pd demo_algo = Frame (DataFrame [] [[]]) \<and>
   df_pricing (fst (load_from_dataset demo_algo empty_node)) \<noteq> Plain (PDict []) \<and>
   df_pricing (fst (load_from_dataset demo_algo pricing_node)) \<noteq>
     Plain (PDict [(''bid'', PFloat 271)]) \<and>
   snd (load_from_dataset demo_algo empty_node) = None"
proof -
  have na: "node_data empty_node = Some []"
    by (simp add: empty_node_def)
  have a: "df_pricing (fst (load_from_dataset s empty_node)) = empty_pd s" for s
    using load_pricing [OF na, of s] by (simp add: or_empty_pd_def data_get_def)
  have nb: "node_data pricing_node = Some [(''pricing'', Plain (PDict [(''bid'', PFloat 271)]))]"
    by (simp add: pricing_node_def)
  have b: "df_pricing (fst (load_from_dataset s pricing_node)) = empty_pd s" for s
    using load_pricing [OF nb, of s] by (simp add: or_empty_pd_def data_get_def)
  have c: "empty_pd demo_algo = Frame (DataFrame [] [[]])"
    by (simp add: demo_algo_def)
  have d: "snd (load_from_dataset demo_algo empty_node) = None"
    by (simp add: load_from_dataset_def empty_node_def demo_algo_def Let_def data_get_def
          or_empty_pd_def latest_prices_def and_then_def set_latest_high_def set_latest_low_def
          set_latest_open_def set_latest_close_def set_latest_volume_def)
  show ?thesis using a b c d by simp
qed

text \<open>
  Claim C3 fails on the code: with the history surface enabled and an output file, the
  payload handed to the publish utility is the fixed text \<open>{"test": "hello"}\<close>,
  whatever the engine holds. The status the utility returns is what the method returns.
\<close>

theorem trade_history_payload_is_placeholder:
  "order_history traded_algo \<noteq> [] \<and> publish_history traded_algo \<and>
   map pub_data (fst (publish_trade_history (\<lambda>c. Inr SUCCESS) traded_algo [])) = [test_payload] \<and>
   map pub_output_file (fst (publish_trade_history (\<lambda>c. Inr SUCCESS) traded_algo [])) =
     [File_given (PStr ''None/history-run1.json'')] \<and>
   snd (publish_trade_history (\<lambda>c. Inr SUCCESS) traded_algo []) =
     Inr (SUCCESS, File_given (PStr ''None/history-run1.json'')) \<and>
   snd (publish_trade_history (\<lambda>c. Inr ERR) traded_algo []) =
     Inr (ERR, File_given (PStr ''None/history-run1.json''))"
  by (simp add: publish_trade_history_def traded_algo_def demo_algo_def dict_get_def Let_def)

text \<open>
  Claim C6 fails on the code: the constructor keeps the fixed directory
  \<open>/opt/sa/tests/datasets/algo\<close> when the caller supplies an output directory (and
  takes the caller's value only when that value is \<open>None\<close> or empty), so the four
  default paths are not under the caller's directory.
\<close>

theorem caller_output_dir_ignored:
  "default_output_file (init_default_keys ''eqa'' (Some ''run1'') (Some ''/tmp/out'') now) =
     ''/opt/sa/tests/datasets/algo/run1.json'' \<and>
   default_input_output_file (init_default_keys ''eqa'' (Some ''run1'') (Some ''/tmp/out'') now) =
     ''/opt/sa/tests/datasets/algo/input-run1.json'' \<and>
   default_history_output_file (init_default_keys ''eqa'' (Some ''run1'') (Some ''/tmp/out'') now) =
     ''/opt/sa/tests/datasets/algo/history-run1.json'' \<and>
   default_report_output_file (init_default_keys ''eqa'' (Some ''run1'') (Some ''/tmp/out'') now) =
     ''/opt/sa/tests/datasets/algo/report-run1.json'' \<and>
   default_output_file (init_default_keys ''eqa'' (Some ''run1'') (Some ''/tmp/out'') now) \<noteq>
     ''/tmp/out/run1.json''"
  by (simp add: init_default_keys_def path_truthy_def str_of_def Let_def)

text \<open>
  Claim C7: with the report-publish flag off, \<open>publish_report_datasets\<close> returns
  \<open>NOT_RUN\<close> with the output file it resolved and makes no call on the publish
  utility, hence no file, cache, archive or chat write.
\<close>

theorem report_publish_disabled:
  assumes "\<not> publish_report s"
  shows "publish_report_datasets publish s kwargs =
           ([], Inr (NOT_RUN,
                 if raise_on_err s \<and> \<not> truthy (dict_get kwargs ''output_file'' (report_output_file s))
                 then File_derived [Arg (dict_get kwargs ''output_dir'' (output_file_dir s)),
                                    Lit ''/report-'', Arg (output_file_prefix s), Lit ''.json'']
                 else File_given (dict_get kwargs ''output_file'' (report_output_file s))))"
  using assms by (simp add: publish_report_datasets_def Let_def)

theorem report_publish_disabled_witness:
  "\<not> publish_report disabled_algo \<and>
   publish_report_datasets (\<lambda>c. Inr SUCCESS) disabled_algo [] =
     ([], Inr (NOT_RUN, File_given (PStr ''None/report-run1.json'')))"
proof -
  have h: "\<not> publish_report disabled_algo"
    by (simp add: disabled_algo_def)
  show ?thesis
    using h report_publish_disabled [OF h, of "\<lambda>c. Inr SUCCESS" "[]"]
    by (simp add: disabled_algo_def demo_algo_def dict_get_def)
qed



subsection \<open>Configuration replay\<close>

lemma map_of_dict_set:
  "map_of (dict_set d k v) k' = (if k' = k then Some v else map_of d k')"
  by (induction d) auto

lemma keys_dict_set: "map_of d k \<noteq> None \<Longrightarrow> map fst (dict_set d k v) = map fst d"
  by (induction d) auto

lemma dict_set_same: "map_of d k = Some v \<Longrightarrow> dict_set d k v = d"
  by (induction d) (auto split: if_splits)

lemma keys_assign_existing: "map fst (assign_existing m c ks) = map fst m"
  by (induction ks arbitrary: m) (auto simp: keys_dict_set split: option.splits)

lemma map_of_assign_existing:
  "map_of (assign_existing m c ks) k =
     (if k \<in> set ks
      then (case map_of c k of
              None \<Rightarrow> map_of m k
            | Some v \<Rightarrow> if map_of m k \<noteq> None then Some v else None)
      else map_of m k)"
proof (induction ks arbitrary: m)
  case Nil
  then show ?case by simp
next
  case (Cons k0 ks)
  show ?case
    by (auto simp: Cons.IH map_of_dict_set split: option.splits)
qed

lemma assign_existing_fixed:
  "(\<And>k v. k \<in> set ks \<Longrightarrow> map_of c k = Some v \<Longrightarrow> map_of m k \<noteq> None \<Longrightarrow> map_of m k = Some v)
   \<Longrightarrow> assign_existing m c ks = m"
proof (induction ks)
  case Nil
  then show ?case by simp
next
  case (Cons k0 ks)
  have step: "(case map_of c k0 of None \<Rightarrow> m
               | Some v \<Rightarrow> if map_of m k0 \<noteq> None then dict_set m k0 v else m) = m"
    using Cons.prems [of k0] by (auto simp: dict_set_same split: option.splits)
  show ?case
    using Cons.IH Cons.prems by (simp add: step)
qed

text \<open>
  Claim C9: applying \<open>load_from_config\<close> twice with the same configuration gives the
  same members as applying it once. One application keeps the member names as they were,
  gives each member named in the configuration the configured value, leaves every other
  member alone, and adds nothing for a key that names no member.
\<close>

theorem load_from_config_idempotent:
  "load_from_config (load_from_config members cfg) cfg = load_from_config members cfg \<and>
   map fst (load_from_config members cfg) = map fst members \<and>
   map_of (load_from_config members cfg) k =
     (case cfg of
        None \<Rightarrow> map_of members k
      | Some c \<Rightarrow>
          (case map_of c k of
             None \<Rightarrow> map_of members k
           | Some v \<Rightarrow> if map_of members k \<noteq> None then Some v else None))"
proof -
  have idem: "load_from_config (load_from_config members cfg) cfg = load_from_config members cfg"
  proof (cases cfg)
    case None
    then show ?thesis by (simp add: load_from_config_def)
  next
    case (Some c)
    have "assign_existing (assign_existing members c (map fst c)) c (map fst c) =
            assign_existing members c (map fst c)"
      by (rule assign_existing_fixed) (simp add: map_of_assign_existing split: if_splits)
    then show ?thesis using Some by (simp add: load_from_config_def)
  qed
  have keys: "map fst (load_from_config members cfg) = map fst members"
    by (simp add: load_from_config_def keys_assign_existing split: option.splits)
  have vals: "map_of (load_from_config members cfg) k =
     (case cfg of
        None \<Rightarrow> map_of members k
      | Some c \<Rightarrow>
          (case map_of c k of
             None \<Rightarrow> map_of members k
           | Some v \<Rightarrow> if map_of members k \<noteq> None then Some v else None))"
  proof (cases cfg)
    case None
    then show ?thesis by (simp add: load_from_config_def)
  next
    case (Some c)
    have "k \<notin> fst ` set c \<Longrightarrow> map_of c k = None"
      by (simp add: map_of_eq_None_iff)
    then show ?thesis
      using Some
      by (auto simp: load_from_config_def map_of_assign_existing split: option.splits)
  qed
  show ?thesis using idem keys vals by blast
qed

theorem load_from_config_idempotent_witness:
  "load_from_config (load_from_config demo_members (Some demo_config)) (Some demo_config) =
     load_from_config demo_members (Some demo_config) \<and>
   load_from_config demo_members (Some demo_config) =
     [(''balance'', PFloat 1000), (''name'', PStr ''demo''), (''commission'', PFloat 2)] \<and>
   map_of (load_from_config demo_members (Some demo_config)) ''unknown_key'' = None"
  using load_from_config_idempotent [of demo_members "Some demo_config" "''unknown_key''"]
  by (simp add: load_from_config_def demo_members_def demo_config_def)


subsection \<open>Replaying a loaded dataset\<close>

text \<open>A load from a file that returns leaves a non-empty dataset in
  \<open>loaded_dataset\<close>: an empty or failed load raises.\<close>

lemma file_load_gives_dataset:
  assumes "load_from_external_source dp s path_to_file None None = (s', None)"
      and "\<not> path_truthy (load_from_s3 s)" "\<not> path_truthy (load_from_redis s)"
      and "path_truthy path_to_file"
  shows "dataset_truthy (loaded_dataset s')"
  using assms
  by (auto simp: load_from_external_source_def Let_def path_truthy_def
           split: option.splits if_splits sum.splits)

text \<open>Whatever the strategy hook is, a call leaves \<open>loaded_dataset\<close> as the hook
  leaves it, and a call that returns has stored the replayed dataset in
  \<open>last_handle_data\<close>.\<close>

lemma assign_keeps_loaded:
  "loaded_dataset (assign_ticker_positions s tkr) = loaded_dataset s"
  by (simp add: assign_ticker_positions_def split: prod.splits)

lemma set_latest_keeps_loaded:
  "loaded_dataset (fst (set_latest_high f s)) = loaded_dataset s"
  "loaded_dataset (fst (set_latest_low f s)) = loaded_dataset s"
  "loaded_dataset (fst (set_latest_open f s)) = loaded_dataset s"
  "loaded_dataset (fst (set_latest_close f s)) = loaded_dataset s"
  "loaded_dataset (fst (set_latest_volume f s)) = loaded_dataset s"
  by (simp_all add: set_latest_high_def set_latest_low_def set_latest_open_def
        set_latest_close_def set_latest_volume_def Let_def split: sum.splits)

lemma latest_prices_keeps_loaded: "loaded_dataset (fst (latest_prices s)) = loaded_dataset s"
  by (simp add: latest_prices_def and_then_keeps set_latest_keeps_loaded split: dsval.splits)

lemma load_keeps_loaded: "loaded_dataset (fst (load_from_dataset s nd)) = loaded_dataset s"
proof (cases "node_data nd")
  case None
  then show ?thesis by (simp add: load_from_dataset_def Let_def)
next
  case (Some d)
  obtain s5 where s5: "load_from_dataset s nd =
       (case latest_prices s5 of
          (s6, None) \<Rightarrow> (s6, None)
        | (s6, Some e) \<Rightarrow>
            (s6\<lparr>debug_msg :=
                  [Arg (PStr (name s6)), Lit '' handle - FAILED getting latest prices '',
                   Lit ''for algo='', Arg (ds_id s6), Lit '' - ds='', Arg (ds_date s6),
                   Lit '' ex='', Exc e]\<rparr>,
             if raise_on_err s6 then Some e else None))"
    and p: "loaded_dataset s5 = loaded_dataset s"
    using Some by (simp add: load_from_dataset_def Let_def)
  have "loaded_dataset (fst (load_from_dataset s nd)) = loaded_dataset (fst (latest_prices s5))"
    unfolding s5 by (cases "latest_prices s5") (simp split: option.splits)
  then show ?thesis using p latest_prices_keeps_loaded by simp
qed

lemma sell_keeps_loaded:
  "loaded_dataset (fst (create_sell_order dp s tkr r sh reason orient fmt)) = loaded_dataset s"
  by (simp add: create_sell_order_def Let_def assign_keeps_loaded
        split: sum.splits option.splits)

lemma buy_keeps_loaded:
  "loaded_dataset (fst (create_buy_order dp s tkr r sh reason)) = loaded_dataset s"
  by (simp add: create_buy_order_def Let_def assign_keeps_loaded
        split: sum.splits option.splits)

lemma process_keeps_loaded:
  "loaded_dataset (fst (process dp s algo_id tkr nd)) = loaded_dataset s"
proof (cases "ticker s")
  case None
  then show ?thesis by (simp add: process_def)
next
  case (Some t)
  show ?thesis
  proof (cases "df_daily s")
    case (Plain v)
    then show ?thesis using Some by (cases v) (simp_all add: process_def Let_def)
  next
    case (Frame f)
    then show ?thesis
      using Some
      by (simp add: process_def Let_def and_then_keeps sell_keeps_loaded buy_keeps_loaded)
  qed
qed

lemma handle_node_keeps_loaded:
  assumes "\<And>s' a t n. loaded_dataset (fst (proc s' a t n)) = loaded_dataset s'"
  shows "loaded_dataset (fst (handle_node dp proc tkr n0 cur nd s)) = loaded_dataset s"
proof (cases "node_date nd")
  case None
  then show ?thesis by (simp add: handle_node_def)
next
  case (Some d)
  show ?thesis
    using Some
    by (simp add: handle_node_def Let_def and_then_keeps assms load_keeps_loaded
          assign_keeps_loaded split: sum.splits)
qed

lemma handle_nodes_keeps_loaded:
  assumes "\<And>s' a t n. loaded_dataset (fst (proc s' a t n)) = loaded_dataset s'"
  shows "loaded_dataset (fst (handle_nodes dp proc tkr n0 cur nds s)) = loaded_dataset s"
proof (induction nds arbitrary: s cur)
  case Nil
  then show ?case by simp
next
  case (Cons nd nds)
  show ?case
    by (simp add: and_then_keeps Cons.IH handle_node_keeps_loaded [OF assms])
qed

lemma handle_tickers_keeps_loaded:
  assumes "\<And>s' a t n. loaded_dataset (fst (proc s' a t n)) = loaded_dataset s'"
  shows "loaded_dataset (fst (handle_tickers dp proc data tkrs s)) = loaded_dataset s"
proof (induction tkrs arbitrary: s)
  case Nil
  then show ?case by simp
next
  case (Cons tkr tkrs)
  show ?case
    by (simp add: and_then_keeps Cons.IH handle_nodes_keeps_loaded [OF assms]
          split: option.splits)
qed

lemma handle_data_keeps_loaded:
  assumes "\<And>s' a t n. loaded_dataset (fst (proc s' a t n)) = loaded_dataset s'"
  shows "loaded_dataset (fst (handle_data dp proc s d)) = loaded_dataset s"
  by (simp add: handle_data_def Let_def and_then_keeps handle_tickers_keeps_loaded [OF assms]
        split: sum.splits)

lemma and_then_done:
  "snd (and_then r (\<lambda>s2. (k s2, None))) = None \<Longrightarrow>
     fst (and_then r (\<lambda>s2. (k s2, None))) = k (fst r)"
  by (cases r) (auto simp: and_then_def split: option.splits)

lemma handle_data_last:
  assumes "loaded_dataset s = Some m" "m \<noteq> []"
      and "snd (handle_data dp proc s d) = None"
  shows "last_handle_data (fst (handle_data dp proc s d)) = Some m"
proof (cases "get_supported_tickers_in_data (s\<lparr>debug_msg := [Arg (PStr (name s)), Lit '' handle - start'']\<rparr>) m")
  case (Inl e)
  then show ?thesis
    using assms by (simp add: handle_data_def Let_def dataset_truthy_def)
next
  case (Inr ts)
  then show ?thesis
    using assms
    by (auto simp: handle_data_def Let_def dataset_truthy_def dest!: and_then_done)
qed

text \<open>With the default strategy, a node that has a date and a \<open>data\<close> entry is loaded,
  processed and recorded without an exception when \<open>raise_on_err\<close> is off: the run
  appends one trade history entry for the node, built for the node's ticker, id and
  date.\<close>

lemma and_then_runs: "snd r = None \<Longrightarrow> and_then r f = f (fst r)"
  by (simp add: and_then_def)

lemma assign_kept: "kept_members (assign_ticker_positions s tkr) = kept_members s"
  by (simp add: assign_ticker_positions_def kept_members_def split: prod.splits)

lemma set_latest_kept:
  "kept_members (fst (set_latest_high f s)) = kept_members s"
  "kept_members (fst (set_latest_low f s)) = kept_members s"
  "kept_members (fst (set_latest_open f s)) = kept_members s"
  "kept_members (fst (set_latest_close f s)) = kept_members s"
  "kept_members (fst (set_latest_volume f s)) = kept_members s"
  by (simp_all add: set_latest_high_def set_latest_low_def set_latest_open_def
        set_latest_close_def set_latest_volume_def Let_def kept_members_def split: sum.splits)

lemma latest_prices_kept: "kept_members (fst (latest_prices s)) = kept_members s"
  by (simp add: latest_prices_def and_then_keeps set_latest_kept split: dsval.splits)

lemma kept_updates:
  "kept_members (s\<lparr>positions := ps\<rparr>) = kept_members s"
  "kept_members (s\<lparr>balance := bal\<rparr>) = kept_members s"
  "kept_members (s\<lparr>buys := os\<rparr>) = kept_members s"
  "kept_members (s\<lparr>sells := os\<rparr>) = kept_members s"
  "kept_members (s\<lparr>created_buy := b\<rparr>) = kept_members s"
  "kept_members (s\<lparr>created_sell := b\<rparr>) = kept_members s"
  "kept_members (s\<lparr>should_buy := b\<rparr>) = kept_members s"
  "kept_members (s\<lparr>should_sell := b\<rparr>) = kept_members s"
  "kept_members (s\<lparr>debug_msg := msg\<rparr>) = kept_members s"
  by (simp_all add: kept_members_def)

lemma sell_kept:
  "kept_members (fst (create_sell_order dp s tkr r sh reason orient fmt)) = kept_members s"
  by (simp add: create_sell_order_def Let_def assign_kept kept_updates
        split: sum.splits option.splits)

lemma buy_kept:
  "kept_members (fst (create_buy_order dp s tkr r sh reason)) = kept_members s"
  by (simp add: create_buy_order_def Let_def assign_kept kept_updates
        split: sum.splits option.splits)

lemma process_kept: "kept_members (fst (process dp s algo_id tkr nd)) = kept_members s"
proof (cases "ticker s")
  case None
  then show ?thesis by (simp add: process_def)
next
  case (Some t)
  show ?thesis
  proof (cases "df_daily s")
    case (Plain v)
    then show ?thesis
      using Some by (cases v) (simp_all add: process_def Let_def kept_updates)
  next
    case (Frame f)
    then show ?thesis
      using Some
      by (simp add: process_def Let_def and_then_keeps sell_kept buy_kept kept_updates)
  qed
qed

lemma sell_example_returns:
  "\<not> raise_on_err s \<Longrightarrow>
     snd (create_sell_order dp s tkr (example_row a) sh reason orient fmt) = None"
  by (simp add: create_sell_order_def Let_def example_row_def row_get_def row_items_def
        split: sum.splits)

lemma buy_example_returns:
  "\<not> raise_on_err s \<Longrightarrow> snd (create_buy_order dp s tkr (example_row a) sh reason) = None"
  by (simp add: create_buy_order_def Let_def example_row_def row_get_def row_items_def
        split: sum.splits)

lemma kept_raise: "kept_members s' = kept_members s \<Longrightarrow> raise_on_err s' = raise_on_err s"
  by (simp add: kept_members_def)

lemma process_returns:
  assumes "ticker s \<noteq> None" "has_empty (df_daily s)" "\<not> raise_on_err s"
  shows "snd (process dp s algo_id tkr nd) = None"
proof -
  obtain t where t: "ticker s = Some t" using assms(1) by auto
  obtain f where f: "df_daily s = Frame f" using assms(2) by (cases "df_daily s") auto
  let ?s1 = "s\<lparr>should_sell := False, should_buy := False\<rparr>"
  let ?r1 = "(?s1, None :: exn option)"
  let ?f2 = "\<lambda>s2. if should_buy s2
                  then create_buy_order dp s2 tkr (example_row algo_id) None (Some ''testing'')
                  else (s2, None)"
  let ?f3 = "\<lambda>s3. if owned_truthy (num_owned s3) \<and> \<not> created_sell s3
                  then create_sell_order dp s3 tkr (example_row algo_id) None
                         (Some ''testing'') ''records'' ''iso''
                  else (s3, None)"
  have p: "process dp s algo_id tkr nd = and_then (and_then ?r1 ?f2) ?f3"
    using t f by (simp add: process_def Let_def)
  have k2: "kept_members (fst (and_then ?r1 ?f2)) = kept_members s"
    by (simp add: and_then_keeps buy_kept kept_updates)
  have n2: "snd (and_then ?r1 ?f2) = None"
    using assms(3) by (simp add: and_then_def buy_example_returns)
  have "\<not> raise_on_err (fst (and_then ?r1 ?f2))"
    using kept_raise [OF k2] assms(3) by simp
  then have "snd (?f3 (fst (and_then ?r1 ?f2))) = None"
    by (simp add: sell_example_returns)
  then show ?thesis
    unfolding p using and_then_runs [OF n2] by simp
qed

lemma load_returns:
  assumes "node_data nd = Some d" "\<not> raise_on_err s"
  shows "snd (load_from_dataset s nd) = None \<and>
         loaded_dataset (fst (load_from_dataset s nd)) = loaded_dataset s \<and>
         raise_on_err (fst (load_from_dataset s nd)) = raise_on_err s \<and>
         empty_pd (fst (load_from_dataset s nd)) = empty_pd s \<and>
         order_history (fst (load_from_dataset s nd)) = order_history s \<and>
         ticker (fst (load_from_dataset s nd)) = ticker s \<and>
         df_daily (fst (load_from_dataset s nd)) =
           or_empty_pd s (data_get d ''daily'' (empty_pd s)) \<and>
         ds_id (fst (load_from_dataset s nd)) =
           (case node_id nd of None \<Rightarrow> PStr ''missing-ID'' | Some v \<Rightarrow> v) \<and>
         trade_date (fst (load_from_dataset s nd)) =
           (case node_date nd of None \<Rightarrow> PStr ''missing-DATE'' | Some v \<Rightarrow> v)"
proof -
  obtain s5 where s5: "load_from_dataset s nd =
       (case latest_prices s5 of
          (s6, None) \<Rightarrow> (s6, None)
        | (s6, Some e) \<Rightarrow>
            (s6\<lparr>debug_msg :=
                  [Arg (PStr (name s6)), Lit '' handle - FAILED getting latest prices '',
                   Lit ''for algo='', Arg (ds_id s6), Lit '' - ds='', Arg (ds_date s6),
                   Lit '' ex='', Exc e]\<rparr>,
             if raise_on_err s6 then Some e else None))"
    and k: "kept_members s5 =
              (loaded_dataset s, raise_on_err s, empty_pd s, order_history s, ticker s,
               or_empty_pd s (data_get d ''daily'' (empty_pd s)),
               (case node_id nd of None \<Rightarrow> PStr ''missing-ID'' | Some v \<Rightarrow> v),
               (case node_date nd of None \<Rightarrow> PStr ''missing-DATE'' | Some v \<Rightarrow> v))"
    using assms(1) by (simp add: load_from_dataset_def Let_def or_empty_pd_def kept_members_def)
  obtain s6 x where l: "latest_prices s5 = (s6, x)" by (cases "latest_prices s5")
  have k6: "kept_members s6 = kept_members s5"
    using latest_prices_kept [of s5] l by simp
  have r6: "\<not> raise_on_err s6"
    using k6 k assms(2) by (simp add: kept_members_def)
  have res: "snd (load_from_dataset s nd) = None \<and>
             kept_members (fst (load_from_dataset s nd)) = kept_members s6"
    unfolding s5 l using r6 by (cases x) (simp_all add: kept_updates)
  then show ?thesis
    using k k6 by (simp add: kept_members_def)
qed


lemma handle_node_replays:
  assumes nd: "node_date nd \<noteq> None" "node_data nd \<noteq> None"
      and s: "\<not> raise_on_err s" "has_empty (empty_pd s)"
      and bld: "\<And>a. \<exists>h. build_trade_history_entry dp a = Inr h \<and> truthy h"
  shows "snd (handle_node dp (process dp) tkr n0 cur nd s) = None \<and>
         raise_on_err (fst (handle_node dp (process dp) tkr n0 cur nd s)) = raise_on_err s \<and>
         empty_pd (fst (handle_node dp (process dp) tkr n0 cur nd s)) = empty_pd s \<and>
         (\<exists>h. entry_of dp (tkr, nd) h \<and>
              order_history (fst (handle_node dp (process dp) tkr n0 cur nd s)) =
                order_history s @ [h])"
proof -
  obtain dt where dt: "node_date nd = Some dt" using nd(1) by auto
  obtain d where d: "node_data nd = Some d" using nd(2) by auto
  let ?shown = "case node_id nd of None \<Rightarrow> PStr ''missing-id'' | Some v \<Rightarrow> v"
  let ?s3 = "(assign_ticker_positions
               (s\<lparr>ticker := Some tkr, prev_bal := Some (balance s),
                  prev_num_owned := num_owned s\<rparr>) tkr)
             \<lparr>debug_msg := [Arg (PStr tkr), Lit '' START - load dataset id='', Arg ?shown]\<rparr>"
  have k3: "kept_members ?s3 =
              (loaded_dataset s, raise_on_err s, empty_pd s, order_history s, Some tkr, df_daily s,
               ds_id s, trade_date s)"
    by (simp add: kept_updates assign_kept) (simp add: kept_members_def)
  have r3: "\<not> raise_on_err ?s3" and e3: "empty_pd ?s3 = empty_pd s"
    and o3: "order_history ?s3 = order_history s" and t3: "ticker ?s3 = Some tkr"
    using k3 s(1) by (simp_all add: kept_members_def)
  note ld = load_returns [OF d r3]
  let ?s4 = "fst (load_from_dataset ?s3 nd)"
  let ?s4' = "?s4\<lparr>debug_msg := [Arg (PStr tkr), Lit '' END - load dataset id='', Arg ?shown],
                  debug_msg := [Arg (PStr tkr), Lit '' START - process id='', Arg ?shown]\<rparr>"
  let ?algo_id = "''ticker='' @ tkr @ '' '' @ build_progress_label dp cur n0"
  have k4: "kept_members ?s4' = kept_members ?s4"
    by (simp add: kept_members_def)
  have d4: "has_empty (df_daily ?s4)"
    using ld e3 s(2) by (simp add: or_empty_pd_def)
  have pre: "ticker ?s4' \<noteq> None" "has_empty (df_daily ?s4')" "\<not> raise_on_err ?s4'"
    using ld t3 r3 d4 by simp_all
  let ?p = "process dp ?s4' ?algo_id tkr nd"
  have pn: "snd ?p = None" by (rule process_returns [OF pre])
  have kp: "kept_members (fst ?p) = kept_members ?s4"
    using process_kept [of dp ?s4' ?algo_id tkr nd] k4 by simp
  let ?s6 = "(fst ?p)\<lparr>debug_msg := [Arg (PStr tkr), Lit '' END - process id='', Arg ?shown],
                        debug_msg := [Arg (PStr tkr), Lit '' START - history id='', Arg ?shown]\<rparr>"
  have k6: "kept_members ?s6 = kept_members ?s4"
    using kp by (simp add: kept_members_def)
  have f6: "raise_on_err ?s6 = raise_on_err s" "empty_pd ?s6 = empty_pd s"
           "order_history ?s6 = order_history s" "ticker ?s6 = Some tkr"
           "ds_id ?s6 = (case node_id nd of None \<Rightarrow> PStr ''missing-ID'' | Some v \<Rightarrow> v)"
           "trade_date ?s6 = (case node_date nd of None \<Rightarrow> PStr ''missing-DATE'' | Some v \<Rightarrow> v)"
    using k6 ld e3 o3 t3 k3 by (simp_all add: kept_members_def)
  obtain h where h: "get_trade_history_node dp ?s6 = Inr h" "truthy h"
    using bld f6(4) by (simp add: get_trade_history_node_def) metis
  have eo: "entry_of dp (tkr, nd) h"
    unfolding entry_of_def
    using h(1) f6(4,5,6) by (auto simp: get_trade_history_node_def)
  let ?fin = "\<lambda>s5. let s6 = s5\<lparr>debug_msg := [Arg (PStr tkr), Lit '' END - process id='', Arg ?shown],
                                   debug_msg := [Arg (PStr tkr), Lit '' START - history id='', Arg ?shown]\<rparr>
                      in case get_trade_history_node dp s6 of
                           Inl e \<Rightarrow> (s6, Some e)
                         | Inr h \<Rightarrow>
                             (let s7 = s6\<lparr>last_history_dict := h\<rparr>;
                                  s8 = (if truthy h
                                        then s7\<lparr>order_history := order_history s7 @ [h]\<rparr>
                                        else s7)
                              in (s8\<lparr>debug_msg := [Arg (PStr tkr), Lit '' END - history id='',
                                                    Arg ?shown]\<rparr>, None))"
  have hn: "handle_node dp (process dp) tkr n0 cur nd s = ?fin (fst ?p)"
    using dt ld pn by (simp add: handle_node_def Let_def and_then_runs)
  have "snd (?fin (fst ?p)) = None \<and> raise_on_err (fst (?fin (fst ?p))) = raise_on_err s \<and>
        empty_pd (fst (?fin (fst ?p))) = empty_pd s \<and>
        order_history (fst (?fin (fst ?p))) = order_history s @ [h]"
    using h f6 by (simp add: Let_def)
  then show ?thesis
    unfolding hn using eo by blast
qed

lemma handle_nodes_replays:
  assumes nds: "\<And>nd. nd \<in> set nds \<Longrightarrow> node_date nd \<noteq> None \<and> node_data nd \<noteq> None"
      and s: "\<not> raise_on_err s" "has_empty (empty_pd s)"
      and bld: "\<And>a. \<exists>h. build_trade_history_entry dp a = Inr h \<and> truthy h"
  shows "snd (handle_nodes dp (process dp) tkr n0 cur nds s) = None \<and>
         raise_on_err (fst (handle_nodes dp (process dp) tkr n0 cur nds s)) = raise_on_err s \<and>
         empty_pd (fst (handle_nodes dp (process dp) tkr n0 cur nds s)) = empty_pd s \<and>
         (\<exists>hs. list_all2 (entry_of dp) (map (Pair tkr) nds) hs \<and>
               order_history (fst (handle_nodes dp (process dp) tkr n0 cur nds s)) =
                 order_history s @ hs)"
  using nds s
proof (induction nds arbitrary: s cur)
  case Nil
  then show ?case by simp
next
  case (Cons nd nds)
  have good: "node_date nd \<noteq> None" "node_data nd \<noteq> None"
    using Cons.prems(1) [of nd] by simp_all
  let ?s1 = "fst (handle_node dp (process dp) tkr n0 cur nd s)"
  have one: "snd (handle_node dp (process dp) tkr n0 cur nd s) = None"
            "raise_on_err ?s1 = raise_on_err s" "empty_pd ?s1 = empty_pd s"
    using handle_node_replays [OF good Cons.prems(2,3) bld, where tkr = tkr and ?n0.0 = n0
            and cur = cur] by simp_all
  obtain h where h: "entry_of dp (tkr, nd) h" "order_history ?s1 = order_history s @ [h]"
    using handle_node_replays [OF good Cons.prems(2,3) bld, where tkr = tkr and ?n0.0 = n0
            and cur = cur] by blast
  let ?r = "handle_nodes dp (process dp) tkr n0 (Suc cur) nds ?s1"
  have rest: "snd ?r = None \<and> raise_on_err (fst ?r) = raise_on_err ?s1 \<and>
              empty_pd (fst ?r) = empty_pd ?s1 \<and>
              (\<exists>hs. list_all2 (entry_of dp) (map (Pair tkr) nds) hs \<and>
                    order_history (fst ?r) = order_history ?s1 @ hs)"
    using Cons.prems one by (intro Cons.IH) simp_all
  then obtain hs where hs: "list_all2 (entry_of dp) (map (Pair tkr) nds) hs"
                           "order_history (fst ?r) = order_history ?s1 @ hs"
    by blast
  have eq: "handle_nodes dp (process dp) tkr n0 cur (nd # nds) s = ?r"
    using one(1) by (simp add: and_then_runs)
  have "list_all2 (entry_of dp) (map (Pair tkr) (nd # nds)) (h # hs) \<and>
        order_history (fst ?r) = order_history s @ (h # hs)"
    using h hs by simp
  then show ?case
    unfolding eq using rest one by metis
qed

lemma handle_tickers_replays:
  assumes ts: "\<And>t. t \<in> set ts \<Longrightarrow> map_of m t \<noteq> None"
      and good: "list_all (\<lambda>tn. node_date (snd tn) \<noteq> None \<and> node_data (snd tn) \<noteq> None)
                   (nodes_of m ts)"
      and s: "\<not> raise_on_err s" "has_empty (empty_pd s)"
      and bld: "\<And>a. \<exists>h. build_trade_history_entry dp a = Inr h \<and> truthy h"
  shows "snd (handle_tickers dp (process dp) m ts s) = None \<and>
         (\<exists>hs. list_all2 (entry_of dp) (nodes_of m ts) hs \<and>
               order_history (fst (handle_tickers dp (process dp) m ts s)) =
                 order_history s @ hs)"
  using ts good s
proof (induction ts arbitrary: s)
  case Nil
  then show ?case by (simp add: nodes_of_def)
next
  case (Cons t ts)
  obtain nds where nds: "map_of m t = Some nds"
    using Cons.prems(1) [of t] by auto
  have split: "nodes_of m (t # ts) = map (Pair t) nds @ nodes_of m ts"
    using nds by (simp add: nodes_of_def)
  have g: "\<And>nd. nd \<in> set nds \<Longrightarrow> node_date nd \<noteq> None \<and> node_data nd \<noteq> None"
    using Cons.prems(2) unfolding split by (force simp: list_all_iff)
  have g': "list_all (\<lambda>tn. node_date (snd tn) \<noteq> None \<and> node_data (snd tn) \<noteq> None)
              (nodes_of m ts)"
    using Cons.prems(2) unfolding split by simp
  let ?r1 = "handle_nodes dp (process dp) t (length nds) 1 nds s"
  note first = handle_nodes_replays [OF g Cons.prems(3,4) bld, where tkr = t
                 and ?n0.0 = "length nds" and cur = 1]
  have one: "snd ?r1 = None" "raise_on_err (fst ?r1) = raise_on_err s"
            "empty_pd (fst ?r1) = empty_pd s"
    using first by simp_all
  obtain hs1 where hs1: "list_all2 (entry_of dp) (map (Pair t) nds) hs1"
                        "order_history (fst ?r1) = order_history s @ hs1"
    using first by blast
  let ?r = "handle_tickers dp (process dp) m ts (fst ?r1)"
  have rest: "snd ?r = None \<and>
              (\<exists>hs. list_all2 (entry_of dp) (nodes_of m ts) hs \<and>
                    order_history (fst ?r) = order_history (fst ?r1) @ hs)"
    using Cons.prems(1,3,4) one g' by (intro Cons.IH) simp_all
  then obtain hs where hs: "list_all2 (entry_of dp) (nodes_of m ts) hs"
                           "order_history (fst ?r) = order_history (fst ?r1) @ hs"
    by blast
  have eq: "handle_tickers dp (process dp) m (t # ts) s = ?r"
    using nds one(1) by (simp add: and_then_runs)
  have "list_all2 (entry_of dp) (nodes_of m (t # ts)) (hs1 @ hs) \<and>
        order_history (fst ?r) = order_history s @ (hs1 @ hs)"
    unfolding split using hs1 hs by (simp add: list_all2_appendI)
  then show ?case
    unfolding eq using rest by metis
qed

lemma handle_data_unfolds:
  assumes m: "loaded_dataset s = Some m" "m \<noteq> []"
      and tk: "tickers s = Some ts"
  shows "handle_data dp proc s d =
           and_then
             (handle_tickers dp proc m (filter (\<lambda>t. map_of m t \<noteq> None) ts)
                (if filter (\<lambda>t. map_of m t \<noteq> None) ts = []
                 then s\<lparr>debug_msg := [Arg (PStr (name s)), Lit '' handle - start'']\<rparr>
                 else s\<lparr>debug_msg := [Arg (PStr (name s)), Lit '' handle - tickers='',
                          Json (PList (map PStr (filter (\<lambda>t. map_of m t \<noteq> None) ts)))]\<rparr>))
             (\<lambda>s2. (s2\<lparr>last_handle_data := Some m,
                        debug_msg := [Arg (PStr (name s2)), Lit '' handle - end tickers='',
                          Arg (PInt (int (length (filter (\<lambda>t. map_of m t \<noteq> None) ts))))]\<rparr>,
                    None))"
  using m tk
  by (simp add: handle_data_def Let_def dataset_truthy_def get_supported_tickers_in_data_def)

lemma handle_data_replays:
  assumes m: "loaded_dataset s = Some m" "m \<noteq> []"
      and tk: "tickers s = Some ts"
      and good: "list_all (\<lambda>tn. node_date (snd tn) \<noteq> None \<and> node_data (snd tn) \<noteq> None)
                   (nodes_of m (filter (\<lambda>t. map_of m t \<noteq> None) ts))"
      and s: "\<not> raise_on_err s" "has_empty (empty_pd s)"
      and bld: "\<And>a. \<exists>h. build_trade_history_entry dp a = Inr h \<and> truthy h"
  shows "snd (handle_data dp (process dp) s d) = None \<and>
         (\<exists>hs. list_all2 (entry_of dp) (nodes_of m (filter (\<lambda>t. map_of m t \<noteq> None) ts)) hs \<and>
               order_history (fst (handle_data dp (process dp) s d)) = order_history s @ hs) \<and>
         last_handle_data (fst (handle_data dp (process dp) s d)) = Some m"
proof -
  let ?ts = "filter (\<lambda>t. map_of m t \<noteq> None) ts"
  let ?s1 = "if ?ts = []
             then s\<lparr>debug_msg := [Arg (PStr (name s)), Lit '' handle - start'']\<rparr>
             else s\<lparr>debug_msg := [Arg (PStr (name s)), Lit '' handle - tickers='',
                                   Json (PList (map PStr ?ts))]\<rparr>"
  have s1: "\<not> raise_on_err ?s1" "has_empty (empty_pd ?s1)" "order_history ?s1 = order_history s"
    using s by simp_all
  have run: "snd (handle_tickers dp (process dp) m ?ts ?s1) = None \<and>
         (\<exists>hs. list_all2 (entry_of dp) (nodes_of m ?ts) hs \<and>
               order_history (fst (handle_tickers dp (process dp) m ?ts ?s1)) =
                 order_history ?s1 @ hs)"
  proof (rule handle_tickers_replays)
    show "\<And>t. t \<in> set ?ts \<Longrightarrow> map_of m t \<noteq> None" by simp
    show "list_all (\<lambda>tn. node_date (snd tn) \<noteq> None \<and> node_data (snd tn) \<noteq> None)
            (nodes_of m ?ts)"
      using good .
    show "\<not> raise_on_err ?s1" using s1(1) .
    show "has_empty (empty_pd ?s1)" using s1(2) .
    show "\<And>a. \<exists>h. build_trade_history_entry dp a = Inr h \<and> truthy h" using bld .
  qed
  show ?thesis
    unfolding handle_data_unfolds [OF m tk] using run s1(3) by (simp add: and_then_runs)
qed

text \<open>
  Claim C10: when \<open>loaded_dataset\<close> is non-empty, \<open>handle_data\<close> replays it whatever
  the argument is. Two calls with different arguments give the same engine and the same
  outcome. The call filters the configured tickers against the loaded dataset and runs
  the ticker loop with the strategy hook over the loaded dataset; a run that returns
  leaves the loaded dataset in \<open>last_handle_data\<close>, and if the hook does not touch
  \<open>loaded_dataset\<close> the member is unchanged, so the next call replays it again. With
  the default strategy, \<open>raise_on_err\<close> off, and every node of a supported ticker
  holding a date and a \<open>data\<close> entry, the call returns and the trade history grows by
  exactly one entry per loaded node of a supported ticker, in the order of the loaded
  dataset, each built for that node's ticker, id and date.
\<close>

theorem loaded_dataset_is_replayed:
  assumes "loaded_dataset s = Some m" and "dataset_truthy (loaded_dataset s)"
  shows "handle_data dp proc s d1 = handle_data dp proc s d2 \<and>
         (tickers s = Some ts \<longrightarrow>
            handle_data dp proc s d1 =
              and_then
                (handle_tickers dp proc m (filter (\<lambda>t. map_of m t \<noteq> None) ts)
                   (if filter (\<lambda>t. map_of m t \<noteq> None) ts = []
                    then s\<lparr>debug_msg := [Arg (PStr (name s)), Lit '' handle - start'']\<rparr>
                    else s\<lparr>debug_msg := [Arg (PStr (name s)), Lit '' handle - tickers='',
                             Json (PList (map PStr (filter (\<lambda>t. map_of m t \<noteq> None) ts)))]\<rparr>))
                (\<lambda>s2. (s2\<lparr>last_handle_data := Some m,
                           debug_msg := [Arg (PStr (name s2)), Lit '' handle - end tickers='',
                             Arg (PInt (int (length (filter (\<lambda>t. map_of m t \<noteq> None) ts))))]\<rparr>,
                       None))) \<and>
         (snd (handle_data dp proc s d1) = None \<longrightarrow>
            last_handle_data (fst (handle_data dp proc s d1)) = Some m) \<and>
         ((\<forall>s' a t n. loaded_dataset (fst (proc s' a t n)) = loaded_dataset s') \<longrightarrow>
            loaded_dataset (fst (handle_data dp proc s d1)) = Some m) \<and>
         (tickers s = Some ts \<and> \<not> raise_on_err s \<and> has_empty (empty_pd s) \<and>
          (\<forall>a. \<exists>h. build_trade_history_entry dp a = Inr h \<and> truthy h) \<and>
          list_all (\<lambda>tn. node_date (snd tn) \<noteq> None \<and> node_data (snd tn) \<noteq> None)
            (nodes_of m (filter (\<lambda>t. map_of m t \<noteq> None) ts)) \<longrightarrow>
            snd (handle_data dp (process dp) s d1) = None \<and>
            (\<exists>hs. list_all2 (entry_of dp) (nodes_of m (filter (\<lambda>t. map_of m t \<noteq> None) ts)) hs \<and>
                  order_history (fst (handle_data dp (process dp) s d1)) =
                    order_history s @ hs) \<and>
            last_handle_data (fst (handle_data dp (process dp) s d1)) = Some m \<and>
            loaded_dataset (fst (handle_data dp (process dp) s d1)) = Some m)"
proof -
  have m: "loaded_dataset s = Some m" "m \<noteq> []"
    using assms by (auto simp: dataset_truthy_def)
  have same: "handle_data dp proc s d = handle_data dp proc s m" for d
    using m by (simp add: handle_data_def Let_def dataset_truthy_def split: sum.splits)
  have a: "handle_data dp proc s d1 = handle_data dp proc s d2"
    using same [of d1] same [of d2] by simp
  have b: "tickers s = Some ts \<longrightarrow>
            handle_data dp proc s d1 =
              and_then
                (handle_tickers dp proc m (filter (\<lambda>t. map_of m t \<noteq> None) ts)
                   (if filter (\<lambda>t. map_of m t \<noteq> None) ts = []
                    then s\<lparr>debug_msg := [Arg (PStr (name s)), Lit '' handle - start'']\<rparr>
                    else s\<lparr>debug_msg := [Arg (PStr (name s)), Lit '' handle - tickers='',
                             Json (PList (map PStr (filter (\<lambda>t. map_of m t \<noteq> None) ts)))]\<rparr>))
                (\<lambda>s2. (s2\<lparr>last_handle_data := Some m,
                           debug_msg := [Arg (PStr (name s2)), Lit '' handle - end tickers='',
                             Arg (PInt (int (length (filter (\<lambda>t. map_of m t \<noteq> None) ts))))]\<rparr>,
                       None))"
    using handle_data_unfolds [OF m] by blast
  have c: "snd (handle_data dp proc s d1) = None \<longrightarrow>
            last_handle_data (fst (handle_data dp proc s d1)) = Some m"
    using handle_data_last [OF m] by simp
  have d: "(\<forall>s' a t n. loaded_dataset (fst (proc s' a t n)) = loaded_dataset s') \<longrightarrow>
            loaded_dataset (fst (handle_data dp proc s d1)) = Some m"
    using handle_data_keeps_loaded [of proc dp s d1] m by simp
  have e: "tickers s = Some ts \<and> \<not> raise_on_err s \<and> has_empty (empty_pd s) \<and>
          (\<forall>a. \<exists>h. build_trade_history_entry dp a = Inr h \<and> truthy h) \<and>
          list_all (\<lambda>tn. node_date (snd tn) \<noteq> None \<and> node_data (snd tn) \<noteq> None)
            (nodes_of m (filter (\<lambda>t. map_of m t \<noteq> None) ts)) \<longrightarrow>
            snd (handle_data dp (process dp) s d1) = None \<and>
            (\<exists>hs. list_all2 (entry_of dp) (nodes_of m (filter (\<lambda>t. map_of m t \<noteq> None) ts)) hs \<and>
                  order_history (fst (handle_data dp (process dp) s d1)) =
                    order_history s @ hs) \<and>
            last_handle_data (fst (handle_data dp (process dp) s d1)) = Some m \<and>
            loaded_dataset (fst (handle_data dp (process dp) s d1)) = Some m"
  proof (intro impI, elim conjE)
    assume h: "tickers s = Some ts" "\<not> raise_on_err s" "has_empty (empty_pd s)"
              "\<forall>a. \<exists>h. build_trade_history_entry dp a = Inr h \<and> truthy h"
              "list_all (\<lambda>tn. node_date (snd tn) \<noteq> None \<and> node_data (snd tn) \<noteq> None)
                 (nodes_of m (filter (\<lambda>t. map_of m t \<noteq> None) ts))"
    have bld: "\<And>a. \<exists>h. build_trade_history_entry dp a = Inr h \<and> truthy h"
      using h(4) by blast
    note r = handle_data_replays [OF m h(1) h(5) h(2) h(3) bld, where d = d1]
    have k: "loaded_dataset (fst (handle_data dp (process dp) s d1)) = Some m"
      using handle_data_keeps_loaded [of "process dp" dp s d1] process_keeps_loaded m by simp
    show "snd (handle_data dp (process dp) s d1) = None \<and>
            (\<exists>hs. list_all2 (entry_of dp) (nodes_of m (filter (\<lambda>t. map_of m t \<noteq> None) ts)) hs \<and>
                  order_history (fst (handle_data dp (process dp) s d1)) =
                    order_history s @ hs) \<and>
            last_handle_data (fst (handle_data dp (process dp) s d1)) = Some m \<and>
            loaded_dataset (fst (handle_data dp (process dp) s d1)) = Some m"
      using r k by blast
  qed
  show ?thesis using a b c d e by blast
qed

theorem loaded_dataset_is_replayed_witness:
  "loaded_dataset loaded_algo = Some [(''SPY'', [daily_node])] \<and>
   dataset_truthy (loaded_dataset loaded_algo) \<and>
   tickers loaded_algo = Some [''SPY''] \<and>
   handle_data demo_deps (process demo_deps) loaded_algo other_data =
     handle_data demo_deps (process demo_deps) loaded_algo [] \<and>
   snd (handle_data demo_deps (process demo_deps) loaded_algo other_data) = None \<and>
   (\<exists>c. order_history (fst (handle_data demo_deps (process demo_deps) loaded_algo other_data)) =
          [PDict [(''ticker'', PStr ''SPY''), (''ds_id'', PStr ''SPY_2018-11-05''),
                  (''close'', PFloat c)]]) \<and>
   last_handle_data (fst (handle_data demo_deps (process demo_deps) loaded_algo other_data)) =
     Some [(''SPY'', [daily_node])] \<and>
   loaded_dataset (fst (handle_data demo_deps (process demo_deps) loaded_algo other_data)) =
     Some [(''SPY'', [daily_node])]"
proof -
  let ?m = "[(''SPY'', [daily_node])]"
  let ?R = "handle_data demo_deps (process demo_deps) loaded_algo other_data"
  have l: "loaded_dataset loaded_algo = Some ?m"
    by (simp add: loaded_algo_def)
  have tr: "dataset_truthy (loaded_dataset loaded_algo)"
    by (simp add: loaded_algo_def dataset_truthy_def)
  have tk: "tickers loaded_algo = Some [''SPY'']"
    by (simp add: loaded_algo_def demo_algo_def)
  have nodes: "nodes_of ?m (filter (\<lambda>t. map_of ?m t \<noteq> None) [''SPY'']) = [(''SPY'', daily_node)]"
    by (simp add: nodes_of_def)
  have pre: "tickers loaded_algo = Some [''SPY''] \<and> \<not> raise_on_err loaded_algo \<and>
             has_empty (empty_pd loaded_algo) \<and>
             (\<forall>a. \<exists>h. build_trade_history_entry demo_deps a = Inr h \<and> truthy h) \<and>
             list_all (\<lambda>tn. node_date (snd tn) \<noteq> None \<and> node_data (snd tn) \<noteq> None)
               (nodes_of ?m (filter (\<lambda>t. map_of ?m t \<noteq> None) [''SPY'']))"
    unfolding nodes
    by (simp add: loaded_algo_def demo_algo_def demo_deps_def daily_node_def)
  have o: "order_history loaded_algo = []"
    by (simp add: loaded_algo_def demo_algo_def)
  note t = loaded_dataset_is_replayed [OF l tr, where dp = demo_deps and proc = "process demo_deps"
             and ?d1.0 = other_data and ?d2.0 = "[]" and ts = "[''SPY'']"]
  have a: "?R = handle_data demo_deps (process demo_deps) loaded_algo []"
    using t by blast
  have r: "snd ?R = None \<and>
           (\<exists>hs. list_all2 (entry_of demo_deps) [(''SPY'', daily_node)] hs \<and>
                 order_history (fst ?R) = order_history loaded_algo @ hs) \<and>
           last_handle_data (fst ?R) = Some ?m \<and> loaded_dataset (fst ?R) = Some ?m"
    using t pre unfolding nodes by blast
  then obtain h where h: "entry_of demo_deps (''SPY'', daily_node) h"
                         "order_history (fst ?R) = [h]"
    unfolding o by (auto simp: list_all2_Cons1)
  have "\<exists>c. h = PDict [(''ticker'', PStr ''SPY''), (''ds_id'', PStr ''SPY_2018-11-05''),
                        (''close'', PFloat c)]"
    using h(1) by (auto simp: entry_of_def demo_deps_def daily_node_def)
  then have e: "\<exists>c. order_history (fst ?R) =
                  [PDict [(''ticker'', PStr ''SPY''), (''ds_id'', PStr ''SPY_2018-11-05''),
                          (''close'', PFloat c)]]"
    using h(2) by simp
  show ?thesis using l tr tk a r e by blast
qed


end
